theory Spec2Isabelle
  imports Main "HOL-Library.Sublist"
begin

section \<open>Operands\<close>

text \<open>
  The dynamic values of the expression language (\<^verbatim>\<open>operand = any\<close> in \<^verbatim>\<open>src/index.ts\<close>).
  Numbers are the integers (doubles are exact on the integers the evaluator's own
  arithmetic is exercised with here; every other numeric behaviour belongs to the host, see
  \<open>host\<close> below). Objects live in a heap and are referred to by address, since assignment and
  update nodes mutate them in place. \<open>VNoopFn\<close> is the closure \<^verbatim>\<open>() => undefined\<close> that
  \<^verbatim>\<open>validateFnAndCall\<close> creates, \<open>VCallee\<close> stands for the callee node itself where
  \<^verbatim>\<open>validateFnAndCall\<close> returns it as second component, and \<open>VPromise\<close> is a reference to a
  promise of the job machine below.
\<close>

datatype val =
    VUndef
  | VNull
  | VBool bool
  | VNum int
  | VNaN
  | VStr string
  | VArr "val list"
  | VRef nat
  | VFun nat
  | VNoopFn
  | VCallee
  | VPromise nat

text \<open>JavaScript truthiness, as used by \<^verbatim>\<open>||\<close>, \<^verbatim>\<open>&&\<close>, \<^verbatim>\<open>!fn\<close> and \<^verbatim>\<open>?:\<close>.\<close>

fun truthy :: "val \<Rightarrow> bool" where
  "truthy VUndef = False"
| "truthy VNull = False"
| "truthy (VBool b) = b"
| "truthy (VNum n) = (n \<noteq> 0)"
| "truthy VNaN = False"
| "truthy (VStr s) = (s \<noteq> [])"
| "truthy _ = True"

text \<open>A deferred value, and \<^verbatim>\<open>typeof fn === 'function'\<close>.\<close>

fun is_promise :: "val \<Rightarrow> bool" where
  "is_promise (VPromise p) = True"
| "is_promise v = False"

fun is_function :: "val \<Rightarrow> bool" where
  "is_function (VFun f) = True"
| "is_function VNoopFn = True"
| "is_function _ = False"

section \<open>The member-access blocklist\<close>

text \<open>
  Line 404 tests the key with \<^verbatim>\<open>/^__proto__|prototype|constructor$/\<close>. In a regular expression
  the alternation binds weaker than the anchors, so the pattern has three alternatives:
  \<^verbatim>\<open>^__proto__\<close>, \<^verbatim>\<open>prototype\<close> and \<^verbatim>\<open>constructor$\<close>. An alternative is a literal with an optional
  anchor at either end; \<open>regex_test\<close> is \<^verbatim>\<open>RegExp.prototype.test\<close> for such patterns.
\<close>

datatype alternative = Alternative (bol: bool) (lit: string) (eol: bool)

definition matches_here :: "alternative \<Rightarrow> string \<Rightarrow> bool" where
  "matches_here a s = (if eol a then s = lit a else prefix (lit a) s)"

definition alternative_test :: "alternative \<Rightarrow> string \<Rightarrow> bool" where
  "alternative_test a s =
     (if bol a then matches_here a s else list_ex (matches_here a) (suffixes s))"

definition regex_test :: "alternative list \<Rightarrow> string \<Rightarrow> bool" where
  "regex_test alts s = list_ex (\<lambda>a. alternative_test a s) alts"

definition member_blocklist :: "alternative list" where
  "member_blocklist =
     [Alternative True ''__proto__'' False,
      Alternative False ''prototype'' False,
      Alternative False ''constructor'' True]"

section \<open>Syntax trees\<close>

text \<open>
  The nodes the evaluator receives from the parser. Every node has a kind (its \<^verbatim>\<open>type\<close>
  string) and the fields of that kind. \<open>Property\<close> occurs among the properties of an
  \<open>ObjectExpression\<close> (fields: key, value, shorthand). \<open>Other\<close> is a node of any other kind;
  that includes the five kinds of the evaluator table whose evaluators are not part of this
  development (arrow functions, await, new, templates and tagged templates).
\<close>

datatype node =
    Literal val
  | Identifier string
  | ThisExpression
  | UnaryExpression string node
  | BinaryExpression string node node
  | LogicalExpression string node node
  | ConditionalExpression node node node
  | MemberExpression node node bool bool
  | OptionalMemberExpression node node bool bool
  | CallExpression node "node list"
  | ArrayExpression "node list"
  | ObjectExpression "node list"
  | Property node node bool
  | SpreadElement node
  | Compound "node list"
  | AssignmentExpression string node node
  | UpdateExpression string node bool
  | Other string

fun node_type :: "node \<Rightarrow> string" where
  "node_type (Literal v) = ''Literal''"
| "node_type (Identifier n) = ''Identifier''"
| "node_type ThisExpression = ''ThisExpression''"
| "node_type (UnaryExpression op a) = ''UnaryExpression''"
| "node_type (BinaryExpression op l r) = ''BinaryExpression''"
| "node_type (LogicalExpression op l r) = ''LogicalExpression''"
| "node_type (ConditionalExpression t c a) = ''ConditionalExpression''"
| "node_type (MemberExpression ob pr computed optional) = ''MemberExpression''"
| "node_type (OptionalMemberExpression ob pr computed optional) = ''OptionalMemberExpression''"
| "node_type (CallExpression callee args) = ''CallExpression''"
| "node_type (ArrayExpression elements) = ''ArrayExpression''"
| "node_type (ObjectExpression properties) = ''ObjectExpression''"
| "node_type (Property k v shorthand) = ''Property''"
| "node_type (SpreadElement a) = ''SpreadElement''"
| "node_type (Compound body) = ''Compound''"
| "node_type (AssignmentExpression op l r) = ''AssignmentExpression''"
| "node_type (UpdateExpression op a pre) = ''UpdateExpression''"
| "node_type (Other k) = k"

section \<open>Errors\<close>

text \<open>
  Every \<^verbatim>\<open>throw\<close> of the source is a constructor: \<open>UnknownNodeType\<close> (line 263, carrying the
  node that the message serialises), \<open>AccessDenied\<close> (line 405, carrying the key),
  \<open>NotAFunction\<close> (line 656, carrying the name that \<^verbatim>\<open>nodeFunctionName\<close> found) and
  \<open>InvalidMemberKey\<close> (line 565). \<open>TypeError\<close> is a type error of the JavaScript runtime
  itself (calling what is not a function, reading a property of \<^verbatim>\<open>undefined\<close>), \<open>HostError\<close>
  is whatever a host function throws, and \<open>NotModelled\<close> marks an evaluator outside this
  development.
\<close>

datatype error =
    UnknownNodeType node
  | AccessDenied string
  | NotAFunction val
  | InvalidMemberKey
  | TypeError string
  | HostError val
  | NotModelled string

section \<open>Heap, host and registries\<close>

text \<open>
  An object is its list of entries in insertion order; the heap is the list of objects, an
  address is an index into it.
\<close>

type_synonym obj = "(string \<times> val) list"
type_synonym heap = "obj list"

definition heap_get :: "heap \<Rightarrow> nat \<Rightarrow> obj option" where
  "heap_get h a = (if a < length h then Some (h ! a) else None)"

fun obj_put :: "string \<Rightarrow> val \<Rightarrow> obj \<Rightarrow> obj" where
  "obj_put k v [] = [(k, v)]"
| "obj_put k v (p # ps) = (if fst p = k then (k, v) # ps else p # obj_put k v ps)"

definition obj_get :: "obj \<Rightarrow> string \<Rightarrow> val" where
  "obj_get ob k = (case map_of ob k of Some v \<Rightarrow> v | None \<Rightarrow> VUndef)"

text \<open>\<^verbatim>\<open>Object.assign(target, source)\<close> on the entries of the source, in their order.\<close>

definition obj_assign :: "obj \<Rightarrow> obj \<Rightarrow> obj" where
  "obj_assign target source = foldl (\<lambda>t (k, v). obj_put k v t) target source"

type_synonym 'a action = "heap \<Rightarrow> (error + 'a) \<times> heap"

text \<open>
  What the JavaScript host decides and the source does not: the string and the number an
  object, array or function converts to, property reads on receivers that are not heap
  objects (through the helper \<^verbatim>\<open>Utils.getKeyValue\<close>), the items of an iterable that is not an
  array, the entries \<^verbatim>\<open>Object.assign\<close> copies from a source that is not a heap object, the
  increment of a slot of a receiver that is not a heap object, the table of literal names of
  \<^verbatim>\<open>./types\<close>, and the functions of the context, called with their receiver and arguments.
\<close>

record host =
  host_to_string :: "val \<Rightarrow> string"
  host_to_number :: "val \<Rightarrow> val"
  host_key_value :: "val \<Rightarrow> string \<Rightarrow> bool \<Rightarrow> error + (string \<times> val) option"
  host_items :: "val \<Rightarrow> error + val list"
  host_entries :: "val \<Rightarrow> obj"
  host_update :: "bool \<Rightarrow> string \<Rightarrow> val \<Rightarrow> string \<Rightarrow> val action"
  literals :: "(string \<times> val) list"
  host_call :: "nat \<Rightarrow> val \<Rightarrow> val list \<Rightarrow> val action"

record options =
  caseSensitive :: bool

text \<open>
  The evaluators of the table: the methods of lines 295 to 632, by name, or a function that
  \<^verbatim>\<open>addEvaluator\<close> registered. A registered evaluator and the predicate of a conditional
  evaluator receive the node and the context (and can reach the heap through it); a
  predicate only reads. A registry is the map of the entries it was given: the members that
  a JavaScript object inherits from \<^verbatim>\<open>Object.prototype\<close> are not among its keys here, so a
  node kind or an operator is never one of those names.
\<close>

datatype builtin =
    EvalArrayExpression
  | EvalBinaryExpression
  | EvalCallExpression
  | EvalCompoundExpression
  | EvalConditionalExpression
  | EvalIdentifier
  | EvalLiteral
  | EvalMemberExpression
  | EvalThisExpression
  | EvalUnaryExpression
  | EvalArrowFunctionExpression
  | EvalAssignmentExpression
  | EvalUpdateExpression
  | EvalAwaitExpression
  | EvalNewExpression
  | EvalObjectExpression
  | EvalSpreadElement
  | EvalTaggedTemplateExpression
  | EvalTemplateLiteral

type_synonym evaluatorCallback = "node \<Rightarrow> val \<Rightarrow> val action"
type_synonym predicateCallback = "node \<Rightarrow> val \<Rightarrow> heap \<Rightarrow> bool"

datatype evaluator = Builtin builtin | Custom evaluatorCallback

record conditionalEvaluator =
  predicate :: predicateCallback
  cond_evaluator :: evaluatorCallback

record registries =
  evaluators :: "string \<rightharpoonup> evaluator"
  conditionalEvaluators :: "string \<rightharpoonup> conditionalEvaluator list"
  binops :: "string \<rightharpoonup> (val \<Rightarrow> val \<Rightarrow> val action)"
  unops :: "string \<rightharpoonup> (val \<Rightarrow> val action)"
  assignOps :: "string \<rightharpoonup> (val \<Rightarrow> val \<Rightarrow> val \<Rightarrow> val action)"
  defaultOptions :: options

text \<open>The table of lines 39 to 61.\<close>

definition default_evaluators :: "string \<rightharpoonup> evaluator" where
  "default_evaluators = map_of
     [(''ArrayExpression'', Builtin EvalArrayExpression),
      (''LogicalExpression'', Builtin EvalBinaryExpression),
      (''BinaryExpression'', Builtin EvalBinaryExpression),
      (''CallExpression'', Builtin EvalCallExpression),
      (''Compound'', Builtin EvalCompoundExpression),
      (''ConditionalExpression'', Builtin EvalConditionalExpression),
      (''Identifier'', Builtin EvalIdentifier),
      (''Literal'', Builtin EvalLiteral),
      (''OptionalMemberExpression'', Builtin EvalMemberExpression),
      (''MemberExpression'', Builtin EvalMemberExpression),
      (''ThisExpression'', Builtin EvalThisExpression),
      (''UnaryExpression'', Builtin EvalUnaryExpression),
      (''ArrowFunctionExpression'', Builtin EvalArrowFunctionExpression),
      (''AssignmentExpression'', Builtin EvalAssignmentExpression),
      (''UpdateExpression'', Builtin EvalUpdateExpression),
      (''AwaitExpression'', Builtin EvalAwaitExpression),
      (''NewExpression'', Builtin EvalNewExpression),
      (''ObjectExpression'', Builtin EvalObjectExpression),
      (''SpreadElement'', Builtin EvalSpreadElement),
      (''TaggedTemplateExpression'', Builtin EvalTaggedTemplateExpression),
      (''TemplateLiteral'', Builtin EvalTemplateLiteral)]"

text \<open>\<^verbatim>\<open>addEvaluator\<close> (lines 173 to 175) and \<^verbatim>\<open>addConditionalEvaluator\<close> (lines 178 to 185).\<close>

definition addEvaluator :: "string \<Rightarrow> evaluatorCallback \<Rightarrow> registries \<Rightarrow> registries" where
  "addEvaluator nodeType ev regs =
     regs\<lparr>evaluators := (evaluators regs)(nodeType \<mapsto> Custom ev)\<rparr>"

definition addConditionalEvaluator ::
  "string \<Rightarrow> predicateCallback \<Rightarrow> evaluatorCallback \<Rightarrow> registries \<Rightarrow> registries" where
  "addConditionalEvaluator nodeType pred ev regs =
     (let list = (case conditionalEvaluators regs nodeType of None \<Rightarrow> [] | Some l \<Rightarrow> l)
      in regs\<lparr>conditionalEvaluators := (conditionalEvaluators regs)
           (nodeType \<mapsto> list @ [\<lparr>predicate = pred, cond_evaluator = ev\<rparr>])\<rparr>)"

section \<open>Conversions and lookup\<close>

fun digits :: "nat \<Rightarrow> string" where
  "digits n = (if n < 10 then [char_of (48 + n)]
               else digits (n div 10) @ [char_of (48 + n mod 10)])"

declare digits.simps [simp del]

text \<open>\<^verbatim>\<open>String(v)\<close>: what a value becomes as the subject of the pattern and as a property key.\<close>

fun to_string :: "host \<Rightarrow> val \<Rightarrow> string" where
  "to_string hst VUndef = ''undefined''"
| "to_string hst VNull = ''null''"
| "to_string hst (VBool b) = (if b then ''true'' else ''false'')"
| "to_string hst (VNum n) = (if n < 0 then CHR ''-'' # digits (nat (- n)) else digits (nat n))"
| "to_string hst VNaN = ''NaN''"
| "to_string hst (VStr s) = s"
| "to_string hst v = host_to_string hst v"

text \<open>\<^verbatim>\<open>Number(v)\<close>, for the increment and decrement operators.\<close>

fun to_number :: "host \<Rightarrow> val \<Rightarrow> val" where
  "to_number hst (VNum n) = VNum n"
| "to_number hst VNaN = VNaN"
| "to_number hst VUndef = VNaN"
| "to_number hst VNull = VNum 0"
| "to_number hst (VBool b) = VNum (if b then 1 else 0)"
| "to_number hst v = host_to_number hst v"

definition lower_char :: "char \<Rightarrow> char" where
  "lower_char c =
     (let n = (of_char c :: nat) in if 65 \<le> n \<and> n \<le> 90 then char_of (n + 32) else c)"

definition same_key :: "bool \<Rightarrow> string \<Rightarrow> string \<Rightarrow> bool" where
  "same_key sensitive a b = (if sensitive then a = b else map lower_char a = map lower_char b)"

text \<open>
  Modelled from the spec: the helpers \<^verbatim>\<open>Utils.getKeyValue\<close>, \<^verbatim>\<open>Utils.getValue\<close> and
  \<^verbatim>\<open>Utils.getLiteralKeyValue\<close> of \<^verbatim>\<open>./utils\<close>, which is not among the sources. The spec
  (4.1) has \<^verbatim>\<open>lookupAssignable(container, key, options)\<close> resolve the key, under
  case-insensitive matching when enabled, to the stored key and its value, and
  \<^verbatim>\<open>lookup(context, name, options)\<close> resolve a name against the immediate context, with
  absence for a name that is not there. A heap object has the entries it lists and no
  inherited ones; a receiver that is not a heap object is the host's. Scope chains
  (\<^verbatim>\<open>options.scopes\<close>) are not part of this development.
\<close>

definition getKeyValue ::
  "host \<Rightarrow> heap \<Rightarrow> val \<Rightarrow> string \<Rightarrow> options \<Rightarrow> error + (string \<times> val) option" where
  "getKeyValue hst h ob name opts =
     (case ob of
        VRef a \<Rightarrow>
          (case heap_get h a of
             Some entries \<Rightarrow>
               Inr (find (\<lambda>kv. same_key (caseSensitive opts) (fst kv) name) entries)
           | None \<Rightarrow> Inl (TypeError ''no such object''))
      | _ \<Rightarrow> host_key_value hst ob name (caseSensitive opts))"

definition getValue :: "host \<Rightarrow> heap \<Rightarrow> val \<Rightarrow> string \<Rightarrow> options \<Rightarrow> error + val" where
  "getValue hst h ob name opts =
     (case getKeyValue hst h ob name opts of
        Inl e \<Rightarrow> Inl e
      | Inr None \<Rightarrow> Inr VUndef
      | Inr (Some kv) \<Rightarrow> Inr (snd kv))"

definition getLiteralKeyValue :: "(string \<times> val) list \<Rightarrow> string \<Rightarrow> options \<Rightarrow> (string \<times> val) option" where
  "getLiteralKeyValue table name opts =
     find (\<lambda>kv. same_key (caseSensitive opts) (fst kv) name) table"

section \<open>Computations\<close>

text \<open>
  The evaluator's methods are written once for both modes, so they are embedded as terms of
  one type of computations: returning a value, throwing, acting on the heap (\<open>Act\<close>),
  reading it (\<open>Read\<close>), writing a node's \<^verbatim>\<open>_value\<close> annotation (\<open>Annotate\<close>), and the three
  promise operations the source uses: \<^verbatim>\<open>Promise.resolve(v)\<close>, \<^verbatim>\<open>p.then(cb)\<close> and
  \<^verbatim>\<open>Promise.all(vs)\<close>. The last argument of a constructor is the rest of the computation;
  the callback of \<open>PThen\<close> runs later, as a job.
\<close>

datatype comp =
    Ret val
  | Throw error
  | Act "val action" "val \<Rightarrow> comp"
  | Read "heap \<Rightarrow> comp"
  | Annotate node val comp
  | PResolve val "val \<Rightarrow> comp"
  | PThen val "val \<Rightarrow> comp" "val \<Rightarrow> comp"
  | PAll "val list" "val \<Rightarrow> comp"

primrec bind :: "comp \<Rightarrow> (val \<Rightarrow> comp) \<Rightarrow> comp" where
  "bind (Ret v) k = k v"
| "bind (Throw e) k = Throw e"
| "bind (Act f c) k = Act f (\<lambda>v. bind (c v) k)"
| "bind (Read f) k = Read (\<lambda>h. bind (f h) k)"
| "bind (Annotate n v c) k = Annotate n v (bind c k)"
| "bind (PResolve v c) k = PResolve v (\<lambda>p. bind (c p) k)"
| "bind (PThen p cb c) k = PThen p cb (\<lambda>d. bind (c d) k)"
| "bind (PAll vs c) k = PAll vs (\<lambda>p. bind (c p) k)"

definition lift :: "error + val \<Rightarrow> comp" where
  "lift r = (case r of Inl e \<Rightarrow> Throw e | Inr v \<Rightarrow> Ret v)"

section \<open>Promises and jobs\<close>

text \<open>
  The promises of ECMAScript, as far as the source uses them. A promise is pending with
  its reactions (and, for the promise of \<^verbatim>\<open>Promise.all\<close>, the elements that have arrived),
  fulfilled or rejected. A reaction is what \<^verbatim>\<open>then\<close> registered: the callback of
  \<^verbatim>\<open>p.then(cb)\<close> with the promise that \<^verbatim>\<open>then\<close> returned; the resolving functions of a
  promise that was resolved with another promise; or the element function of
  \<^verbatim>\<open>Promise.all\<close> with its index. A settled promise turns each of its reactions into a job at
  the end of the job queue; the queue runs first in, first out, after the running code
  has returned.
\<close>

datatype reaction =
    ThenReaction "val \<Rightarrow> comp" nat
  | ResolveReaction nat
  | AllReaction nat nat

datatype pstate =
    Pending "reaction list" "val option list"
  | Fulfilled val
  | Rejected error

datatype job =
    ReactionJob reaction "error + val"
  | ThenableJob nat nat

record mstate =
  heap :: heap
  annotations :: "(node \<times> val) list"
  promises :: "pstate list"
  queue :: "job list"

definition new_promise :: "pstate \<Rightarrow> mstate \<Rightarrow> nat \<times> mstate" where
  "new_promise st s = (length (promises s), s\<lparr>promises := promises s @ [st]\<rparr>)"

definition promise_state :: "mstate \<Rightarrow> nat \<Rightarrow> pstate option" where
  "promise_state s p = (if p < length (promises s) then Some (promises s ! p) else None)"

definition settle :: "nat \<Rightarrow> error + val \<Rightarrow> mstate \<Rightarrow> mstate" where
  "settle p r s =
     (case promise_state s p of
        Some (Pending rs slots) \<Rightarrow>
          s\<lparr>promises := (promises s)[p := (case r of Inl e \<Rightarrow> Rejected e | Inr v \<Rightarrow> Fulfilled v)],
            queue := queue s @ map (\<lambda>rc. ReactionJob rc r) rs\<rparr>
      | _ \<Rightarrow> s)"

definition fulfil :: "nat \<Rightarrow> val \<Rightarrow> mstate \<Rightarrow> mstate" where
  "fulfil p v s = settle p (Inr v) s"

definition reject :: "nat \<Rightarrow> error \<Rightarrow> mstate \<Rightarrow> mstate" where
  "reject p e s = settle p (Inl e) s"

text \<open>
  The resolving function of a promise: a promise as resolution is followed by a job that
  calls its \<^verbatim>\<open>then\<close>; any other value fulfils.
\<close>

definition resolve :: "nat \<Rightarrow> val \<Rightarrow> mstate \<Rightarrow> mstate" where
  "resolve p v s =
     (case v of
        VPromise q \<Rightarrow> s\<lparr>queue := queue s @ [ThenableJob p q]\<rparr>
      | _ \<Rightarrow> fulfil p v s)"

text \<open>\<^verbatim>\<open>Promise.resolve(v)\<close>: a promise is returned as it is.\<close>

definition promise_resolve :: "val \<Rightarrow> mstate \<Rightarrow> nat \<times> mstate" where
  "promise_resolve v s =
     (case v of VPromise q \<Rightarrow> (q, s) | _ \<Rightarrow> new_promise (Fulfilled v) s)"

definition perform_then :: "nat \<Rightarrow> reaction \<Rightarrow> mstate \<Rightarrow> mstate" where
  "perform_then q rc s =
     (case promise_state s q of
        Some (Pending rs slots) \<Rightarrow> s\<lparr>promises := (promises s)[q := Pending (rs @ [rc]) slots]\<rparr>
      | Some (Fulfilled v) \<Rightarrow> s\<lparr>queue := queue s @ [ReactionJob rc (Inr v)]\<rparr>
      | Some (Rejected e) \<Rightarrow> s\<lparr>queue := queue s @ [ReactionJob rc (Inl e)]\<rparr>
      | None \<Rightarrow> s)"

fun all_register :: "nat \<Rightarrow> nat \<Rightarrow> val list \<Rightarrow> mstate \<Rightarrow> mstate" where
  "all_register a i [] s = s"
| "all_register a i (v # vs) s =
     (case promise_resolve v s of
        (q, s1) \<Rightarrow> all_register a (Suc i) vs (perform_then q (AllReaction a i) s1))"

definition promise_all :: "val list \<Rightarrow> mstate \<Rightarrow> nat \<times> mstate" where
  "promise_all vs s =
     (case new_promise (Pending [] (replicate (length vs) None)) s of
        (a, s1) \<Rightarrow>
          (a, if vs = [] then fulfil a (VArr []) s1 else all_register a 0 vs s1))"

text \<open>The write \<^verbatim>\<open>node._value = v\<close> of lines 253 and 267, kept as a log of such writes.\<close>

definition annotate :: "node \<Rightarrow> val \<Rightarrow> mstate \<Rightarrow> mstate" where
  "annotate nd v s = s\<lparr>annotations := annotations s @ [(nd, v)]\<rparr>"

text \<open>Running a computation up to its return or throw; promise operations only schedule.\<close>

primrec exec :: "comp \<Rightarrow> mstate \<Rightarrow> (error + val) \<times> mstate" where
  "exec (Ret v) s = (Inr v, s)"
| "exec (Throw e) s = (Inl e, s)"
| "exec (Act f c) s =
     (case f (heap s) of
        (Inl e, h) \<Rightarrow> (Inl e, s\<lparr>heap := h\<rparr>)
      | (Inr v, h) \<Rightarrow> exec (c v) (s\<lparr>heap := h\<rparr>))"
| "exec (Read f) s = exec (f (heap s)) s"
| "exec (Annotate n v c) s = exec c (annotate n v s)"
| "exec (PResolve v c) s =
     (case promise_resolve v s of (p, s1) \<Rightarrow> exec (c (VPromise p)) s1)"
| "exec (PThen pv cb c) s =
     (case pv of
        VPromise q \<Rightarrow>
          (case new_promise (Pending [] []) s of
             (d, s1) \<Rightarrow> exec (c (VPromise d)) (perform_then q (ThenReaction cb d) s1))
      | _ \<Rightarrow> (Inl (TypeError ''then is not a function''), s))"
| "exec (PAll vs c) s =
     (case promise_all vs s of (a, s1) \<Rightarrow> exec (c (VPromise a)) s1)"

text \<open>The element function of \<^verbatim>\<open>Promise.all\<close>: the last element to arrive fulfils.\<close>

definition all_element :: "nat \<Rightarrow> nat \<Rightarrow> val \<Rightarrow> mstate \<Rightarrow> mstate" where
  "all_element a i v s =
     (case promise_state s a of
        Some (Pending rs slots) \<Rightarrow>
          (let slots' = slots[i := Some v];
               s1 = s\<lparr>promises := (promises s)[a := Pending rs slots']\<rparr>
           in if list_all (\<lambda>x. x \<noteq> None) slots'
              then fulfil a (VArr (map the slots')) s1 else s1)
      | _ \<Rightarrow> s)"

fun run_job :: "job \<Rightarrow> mstate \<Rightarrow> mstate" where
  "run_job (ReactionJob (ThenReaction cb d) (Inr v)) s =
     (case exec (cb v) s of
        (Inr r, s1) \<Rightarrow> resolve d r s1
      | (Inl e, s1) \<Rightarrow> reject d e s1)"
| "run_job (ReactionJob (ThenReaction cb d) (Inl e)) s = reject d e s"
| "run_job (ReactionJob (ResolveReaction p) (Inr v)) s = resolve p v s"
| "run_job (ReactionJob (ResolveReaction p) (Inl e)) s = reject p e s"
| "run_job (ReactionJob (AllReaction a i) (Inr v)) s = all_element a i v s"
| "run_job (ReactionJob (AllReaction a i) (Inl e)) s = reject a e s"
| "run_job (ThenableJob p q) s = perform_then q (ResolveReaction p) s"

text \<open>
  The job queue, run until it is empty. The number bounds the jobs run; \<open>None\<close> is a
  queue that is not yet empty after that many.
\<close>

fun run_queue :: "nat \<Rightarrow> mstate \<Rightarrow> mstate option" where
  "run_queue n s =
     (case queue s of
        [] \<Rightarrow> Some s
      | j # js \<Rightarrow>
          (case n of
             0 \<Rightarrow> None
           | Suc m \<Rightarrow> run_queue m (run_job j (s\<lparr>queue := js\<rparr>))))"

declare run_queue.simps [simp del]

section \<open>The evaluator\<close>

text \<open>
  One instance of \<^verbatim>\<open>ExpressionEval\<close> (lines 230 to 242): the registries it reads, the host,
  its options, its mode and its context (\<open>ctx\<close>).
\<close>

record env =
  regs :: registries
  hst :: host
  opts :: options
  isAsync :: bool
  ctx :: val

text \<open>\<^verbatim>\<open>evalSyncAsync\<close> (lines 288 to 293).\<close>

definition evalSyncAsync :: "bool \<Rightarrow> val \<Rightarrow> (val \<Rightarrow> comp) \<Rightarrow> comp" where
  "evalSyncAsync async v cb = (if async then PResolve v (\<lambda>p. PThen p cb Ret) else cb v)"

text \<open>
  The end of \<^verbatim>\<open>eval\<close> (lines 252 to 255 and 266 to 269): the value \<open>r\<close> that the chosen
  evaluator returned goes through \<open>evalSyncAsync\<close> into the callback that writes the node's
  annotation and calls \<open>cb\<close>.
\<close>

definition eval_with :: "env \<Rightarrow> node \<Rightarrow> comp \<Rightarrow> (val \<Rightarrow> comp) \<Rightarrow> comp" where
  "eval_with e nd r cb =
     bind r (\<lambda>x. evalSyncAsync (isAsync e) x (\<lambda>v. Annotate nd v (cb v)))"

text \<open>The loop of lines 246 to 258: the first conditional evaluator whose predicate holds.\<close>

definition find_conditional ::
  "registries \<Rightarrow> node \<Rightarrow> val \<Rightarrow> heap \<Rightarrow> conditionalEvaluator option" where
  "find_conditional rg nd this_context h =
     (case conditionalEvaluators rg (node_type nd) of
        None \<Rightarrow> None
      | Some list \<Rightarrow> find (\<lambda>proba. predicate proba nd this_context h) list)"

definition arr_items :: "val \<Rightarrow> val list" where
  "arr_items v = (case v of VArr xs \<Rightarrow> xs | _ \<Rightarrow> [])"

text \<open>An element of a destructured array: \<^verbatim>\<open>undefined\<close> beyond its end.\<close>

definition arr_nth :: "val \<Rightarrow> nat \<Rightarrow> val" where
  "arr_nth v i = (let xs = arr_items v in if i < length xs then xs ! i else VUndef)"

definition new_object :: "val action" where
  "new_object h = (Inr (VRef (length h)), h @ [[]])"

text \<open>The reduction \<^verbatim>\<open>toFullArray\<close> of \<^verbatim>\<open>evalArray\<close> (lines 301 to 308).\<close>

definition items :: "host \<Rightarrow> val \<Rightarrow> error + val list" where
  "items h v = (case v of VArr xs \<Rightarrow> Inr xs | _ \<Rightarrow> host_items h v)"

fun full_array :: "host \<Rightarrow> node list \<Rightarrow> val list \<Rightarrow> error + val list" where
  "full_array h (nd # nds) (v # vs) =
     (if node_type nd = ''SpreadElement''
      then (case items h v of
              Inl er \<Rightarrow> Inl er
            | Inr xs \<Rightarrow> (case full_array h nds vs of Inl er \<Rightarrow> Inl er | Inr r \<Rightarrow> Inr (xs @ r)))
      else (case full_array h nds vs of Inl er \<Rightarrow> Inl er | Inr r \<Rightarrow> Inr (v # r)))"
| "full_array h nds vs = Inr []"

definition toFullArray :: "host \<Rightarrow> node list \<Rightarrow> val \<Rightarrow> comp" where
  "toFullArray h list res =
     (case full_array h list (arr_items res) of Inl er \<Rightarrow> Throw er | Inr xs \<Rightarrow> Ret (VArr xs))"

text \<open>The callback \<^verbatim>\<open>op\<close> of \<^verbatim>\<open>evalBinaryExpression\<close> (lines 324 and 325).\<close>

definition binary_op :: "registries \<Rightarrow> string \<Rightarrow> val \<Rightarrow> comp" where
  "binary_op rg operator leftRight =
     (case binops rg operator of
        None \<Rightarrow> Throw (TypeError ''binops[operator] is not a function'')
      | Some f \<Rightarrow> Act (f (arr_nth leftRight 0) (arr_nth leftRight 1)) Ret)"

definition unary_op :: "registries \<Rightarrow> string \<Rightarrow> val \<Rightarrow> comp" where
  "unary_op rg operator arg =
     (case unops rg operator of
        None \<Rightarrow> Throw (TypeError ''unops[operator] is not a function'')
      | Some f \<Rightarrow> Act (f arg) Ret)"

definition assign_op :: "registries \<Rightarrow> string \<Rightarrow> val \<Rightarrow> val \<Rightarrow> comp" where
  "assign_op rg operator dest right =
     (case assignOps rg operator of
        None \<Rightarrow> Throw (TypeError ''assignOps[operator] is not a function'')
      | Some f \<Rightarrow> Act (f (arr_nth dest 0) (arr_nth dest 1) right) Ret)"

text \<open>\<^verbatim>\<open>nodeFunctionName\<close> (lines 661 to 666).\<close>

fun identifier_name :: "node \<Rightarrow> val" where
  "identifier_name (Identifier n) = VStr n"
| "identifier_name nd = VUndef"

fun nodeFunctionName :: "node \<Rightarrow> val" where
  "nodeFunctionName (Identifier n) = (if n \<noteq> [] then VStr n else VUndef)"
| "nodeFunctionName (MemberExpression ob pr computed optional) = identifier_name pr"
| "nodeFunctionName (OptionalMemberExpression ob pr computed optional) = identifier_name pr"
| "nodeFunctionName nd = VUndef"

fun node_optional :: "node \<Rightarrow> bool" where
  "node_optional (MemberExpression ob pr computed optional) = optional"
| "node_optional (OptionalMemberExpression ob pr computed optional) = optional"
| "node_optional nd = False"

text \<open>
  \<^verbatim>\<open>validateFnAndCall(fn, callee, caller)\<close> (lines 646 to 659). Its second argument is the
  callee node (lines 352 and 354) or, for a member callee, the object the member was read
  from (line 347, where the callee node is the third argument).
\<close>

datatype callee_arg = CalleeNode node | Receiver val

fun callee_value :: "callee_arg \<Rightarrow> val" where
  "callee_value (CalleeNode nd) = VCallee"
| "callee_value (Receiver v) = v"

definition validateFnAndCall :: "val \<Rightarrow> callee_arg \<Rightarrow> node option \<Rightarrow> error + val" where
  "validateFnAndCall fn callee caller =
     (if \<not> is_function fn then
        (if \<not> truthy fn \<and> (case caller of Some c \<Rightarrow> node_optional c | None \<Rightarrow> False)
         then Inr (VArr [VNoopFn, callee_value callee])
         else Inl (NotAFunction
                (case caller of
                   Some c \<Rightarrow> nodeFunctionName c
                 | None \<Rightarrow> (case callee of CalleeNode c \<Rightarrow> nodeFunctionName c
                            | Receiver v \<Rightarrow> VUndef))))
      else Inr (VArr [fn, callee_value callee]))"

text \<open>\<^verbatim>\<open>fn.apply(caller === node.callee ? this.context : caller, args)\<close> (lines 339 and 340).\<close>

definition apply_fn :: "env \<Rightarrow> val \<Rightarrow> val \<Rightarrow> comp" where
  "apply_fn e fnCaller args =
     (let fn = arr_nth fnCaller 0; caller = arr_nth fnCaller 1;
          this = (if caller = VCallee then ctx e else caller)
      in case fn of
           VFun f \<Rightarrow> Act (host_call (hst e) f this (arr_items args)) Ret
         | VNoopFn \<Rightarrow> Ret VUndef
         | _ \<Rightarrow> Throw (TypeError ''fn.apply is not a function''))"

text \<open>
  The callback of \<^verbatim>\<open>evaluateMember\<close> that receives the key (lines 403 to 412). The scope
  annotation of line 408 is only written under \<^verbatim>\<open>options.scopes\<close>, so the options of the
  lookup are those of the instance.
\<close>

definition member_key :: "env \<Rightarrow> bool \<Rightarrow> val \<Rightarrow> val \<Rightarrow> comp" where
  "member_key e optional object key =
     (if regex_test member_blocklist (to_string (hst e) key)
      then Throw (AccessDenied (to_string (hst e) key))
      else bind (if optional \<and> \<not> truthy object then Act new_object Ret else Ret object)
             (\<lambda>ob. Read (\<lambda>h.
                case getValue (hst e) h ob (to_string (hst e) key) (opts e) of
                  Inl er \<Rightarrow> Throw er
                | Inr v \<Rightarrow> Ret (VArr [object, v, key]))))"

text \<open>
  The rest of \<^verbatim>\<open>evaluateMember\<close> (lines 398 to 402), given the results of evaluating the
  object and the property.
\<close>

definition evaluateMember_of ::
  "env \<Rightarrow> node \<Rightarrow> comp \<Rightarrow> node \<Rightarrow> comp \<Rightarrow> bool \<Rightarrow> bool \<Rightarrow> comp" where
  "evaluateMember_of e ob obr pr prr computed optional =
     eval_with e ob obr (\<lambda>object.
       bind (if computed then eval_with e pr prr Ret else Ret (identifier_name pr))
         (\<lambda>k. evalSyncAsync (isAsync e) k (member_key e optional object)))"

text \<open>\<^verbatim>\<open>evalIdentifier\<close> (lines 363 to 387), without the scope search.\<close>

definition lookup_value :: "env \<Rightarrow> string \<Rightarrow> comp" where
  "lookup_value e name =
     Read (\<lambda>h. case getValue (hst e) h (ctx e) name (opts e) of
                 Inl er \<Rightarrow> Throw er | Inr v \<Rightarrow> Ret v)"

definition evalIdentifier :: "env \<Rightarrow> string \<Rightarrow> comp" where
  "evalIdentifier e name =
     (if caseSensitive (opts e) then lookup_value e name
      else if map lower_char name = ''this'' then Ret (ctx e)
      else (case getLiteralKeyValue (literals (hst e)) name (opts e) of
              Some literal \<Rightarrow> Ret (snd literal)
            | None \<Rightarrow> lookup_value e name))"

text \<open>
  \<^verbatim>\<open>evalUpdateOperation\<close> (lines 534 to 543): the operators \<^verbatim>\<open>++\<close> and \<^verbatim>\<open>--\<close> of JavaScript on
  the slot \<^verbatim>\<open>destObj[destKey]\<close>: the slot's value is converted to a number, the new number
  is stored, and the prefix form yields the new number, the postfix form the old one.
\<close>

fun step_number :: "string \<Rightarrow> val \<Rightarrow> val" where
  "step_number operator (VNum n) = VNum (if operator = ''++'' then n + 1 else n - 1)"
| "step_number operator v = v"

definition evalUpdateOperation :: "host \<Rightarrow> bool \<Rightarrow> string \<Rightarrow> val \<Rightarrow> val \<Rightarrow> val action" where
  "evalUpdateOperation hs pre operator destObj destKey h =
     (case destObj of
        VRef a \<Rightarrow>
          (case heap_get h a of
             Some entries \<Rightarrow>
               (let k = to_string hs destKey;
                    old = to_number hs (obj_get entries k);
                    new = step_number operator old
                in (Inr (if pre then new else old), h[a := obj_put k new entries]))
           | None \<Rightarrow> (Inl (TypeError ''no such object''), h))
      | _ \<Rightarrow> host_update hs pre operator destObj (to_string hs destKey) h)"

text \<open>The callbacks of \<^verbatim>\<open>getContextAndKey\<close> (lines 549 to 553 and 556 to 558).\<close>

definition context_and_key :: "env \<Rightarrow> val \<Rightarrow> val \<Rightarrow> comp" where
  "context_and_key e ob key =
     Read (\<lambda>h. case getKeyValue (hst e) h ob (to_string (hst e) key) (opts e) of
                 Inl er \<Rightarrow> Throw er
               | Inr None \<Rightarrow> Ret (VArr [ob, key])
               | Inr (Some keyValue) \<Rightarrow> Ret (VArr [ob, VStr (fst keyValue)]))"

text \<open>\<^verbatim>\<open>Object.assign(obj, source)\<close> and \<^verbatim>\<open>obj[key] = val\<close> of \<^verbatim>\<open>evalObjectExpression\<close>.\<close>

definition object_assign :: "host \<Rightarrow> val \<Rightarrow> val \<Rightarrow> val action" where
  "object_assign hs ob source h =
     (case ob of
        VRef a \<Rightarrow>
          (case heap_get h a of
             Some target \<Rightarrow>
               (let entries = (case source of
                                 VRef b \<Rightarrow> (case heap_get h b of Some es \<Rightarrow> es | None \<Rightarrow> [])
                               | VUndef \<Rightarrow> []
                               | VNull \<Rightarrow> []
                               | _ \<Rightarrow> host_entries hs source)
                in (Inr ob, h[a := obj_assign target entries]))
           | None \<Rightarrow> (Inl (TypeError ''no such object''), h))
      | _ \<Rightarrow> (Inl (TypeError ''no such object''), h))"

definition set_property :: "host \<Rightarrow> val \<Rightarrow> val \<Rightarrow> val \<Rightarrow> val action" where
  "set_property hs ob key v h =
     (case ob of
        VRef a \<Rightarrow>
          (case heap_get h a of
             Some target \<Rightarrow> (Inr v, h[a := obj_put (to_string hs key) v target])
           | None \<Rightarrow> (Inl (TypeError ''no such object''), h))
      | _ \<Rightarrow> (Inl (TypeError ''no such object''), h))"

definition last_value :: "val list \<Rightarrow> val" where
  "last_value vs = (if vs = [] then VUndef else last vs)"

definition not_modelled :: "node \<Rightarrow> comp" where
  "not_modelled nd = Throw (NotModelled (node_type nd))"

subsection \<open>The methods, given the results of their sub-evaluations\<close>

text \<open>
  Each method of the class is first written as a function of the computations that
  evaluating its child nodes gives (the arguments \<open>lr\<close>, \<open>rr\<close>, ... below stand for
  \<^verbatim>\<open>evaluator.bind(this)(child, this.context)\<close>); the recursion over the tree ties them
  together afterwards.
\<close>

text \<open>
  The head of \<^verbatim>\<open>eval\<close> (lines 246 to 266): the conditional evaluators of the node's kind
  first, then the table; \<open>method\<close> is the built-in method the table names, applied to this
  node.
\<close>

definition dispatch :: "env \<Rightarrow> node \<Rightarrow> (builtin \<Rightarrow> comp) \<Rightarrow> comp" where
  "dispatch e nd method =
     Read (\<lambda>h.
       case find_conditional (regs e) nd (ctx e) h of
         Some proba \<Rightarrow> Act (cond_evaluator proba nd (ctx e)) Ret
       | None \<Rightarrow>
           (case evaluators (regs e) (node_type nd) of
              None \<Rightarrow> Throw (UnknownNodeType nd)
            | Some (Custom f) \<Rightarrow> Act (f nd (ctx e)) Ret
            | Some (Builtin b) \<Rightarrow> method b))"

text \<open>
  A built-in method is embedded for the nodes it was written for; applied to a node of
  another shape it is not part of this development.
\<close>

definition method_for :: "builtin \<Rightarrow> node \<Rightarrow> comp \<Rightarrow> builtin \<Rightarrow> comp" where
  "method_for b nd body b' = (if b' = b then body else not_modelled nd)"

text \<open>\<^verbatim>\<open>evalBinaryExpression\<close> (lines 314 to 329).\<close>

definition evalBinaryExpression_of ::
  "env \<Rightarrow> string \<Rightarrow> node \<Rightarrow> comp \<Rightarrow> node \<Rightarrow> comp \<Rightarrow> comp" where
  "evalBinaryExpression_of e operator left lr right rr =
     (if operator = ''||'' then
        eval_with e left lr (\<lambda>l. if truthy l then Ret l else eval_with e right rr Ret)
      else if operator = ''&&'' then
        eval_with e left lr (\<lambda>l. if truthy l then eval_with e right rr Ret else Ret l)
      else
        bind (eval_with e left lr Ret) (\<lambda>l.
        bind (eval_with e right rr Ret) (\<lambda>r.
          if isAsync e
          then PAll [l, r] (\<lambda>p. PThen p (binary_op (regs e) operator) Ret)
          else binary_op (regs e) operator (VArr [l, r]))))"

text \<open>\<^verbatim>\<open>list.map(v => this.eval(v))\<close>, on the nodes paired with their evaluations.\<close>

primrec eval_map_of :: "env \<Rightarrow> (node \<times> comp) list \<Rightarrow> comp" where
  "eval_map_of e [] = Ret (VArr [])"
| "eval_map_of e (x # xs) =
     bind (eval_with e (fst x) (snd x) Ret) (\<lambda>v.
     bind (eval_map_of e xs) (\<lambda>vs. Ret (VArr (v # arr_items vs))))"

text \<open>\<^verbatim>\<open>evalArray\<close> (lines 299 to 312).\<close>

definition evalArray_of :: "env \<Rightarrow> (node \<times> comp) list \<Rightarrow> comp" where
  "evalArray_of e list =
     bind (eval_map_of e list) (\<lambda>mapped.
       if isAsync e
       then PAll (arr_items mapped) (\<lambda>p. PThen p (toFullArray (hst e) (map fst list)) Ret)
       else toFullArray (hst e) (map fst list) mapped)"

text \<open>\<^verbatim>\<open>evalCompoundExpression\<close> (lines 331 to 335).\<close>

primrec compound_async_of :: "env \<Rightarrow> (node \<times> comp) list \<Rightarrow> val \<Rightarrow> comp" where
  "compound_async_of e [] p = Ret p"
| "compound_async_of e (x # xs) p =
     PThen p (\<lambda>u. eval_with e (fst x) (snd x) Ret) (compound_async_of e xs)"

definition evalCompoundExpression_of :: "env \<Rightarrow> (node \<times> comp) list \<Rightarrow> comp" where
  "evalCompoundExpression_of e body =
     (if isAsync e then PResolve VUndef (compound_async_of e body)
      else bind (eval_map_of e body) (\<lambda>vs. Ret (last_value (arr_items vs))))"

text \<open>\<^verbatim>\<open>evalCall\<close> (lines 343 to 355) and \<^verbatim>\<open>evalCallExpression\<close> (lines 337 to 341).\<close>

fun evalCall_of :: "env \<Rightarrow> node \<Rightarrow> comp \<Rightarrow> comp \<Rightarrow> comp" where
  "evalCall_of e (MemberExpression ob pr computed optional) cr mr =
     bind mr (\<lambda>m. evalSyncAsync (isAsync e) m (\<lambda>t.
       lift (validateFnAndCall (arr_nth t 1) (Receiver (arr_nth t 0))
               (Some (MemberExpression ob pr computed optional)))))"
| "evalCall_of e (Identifier name) cr mr =
     bind (lookup_value e name)
       (\<lambda>fn. lift (validateFnAndCall fn (CalleeNode (Identifier name)) None))"
| "evalCall_of e callee cr mr =
     eval_with e callee cr (\<lambda>fn. lift (validateFnAndCall fn (CalleeNode callee) None))"

definition evalCallExpression_of :: "env \<Rightarrow> comp \<Rightarrow> comp \<Rightarrow> comp" where
  "evalCallExpression_of e call arguments =
     bind call (\<lambda>c. evalSyncAsync (isAsync e) c (\<lambda>fnCaller.
       bind arguments (\<lambda>a. evalSyncAsync (isAsync e) a (apply_fn e fnCaller))))"

text \<open>\<^verbatim>\<open>evalConditionalExpression\<close> (lines 357 to 361).\<close>

definition evalConditionalExpression_of ::
  "env \<Rightarrow> node \<Rightarrow> comp \<Rightarrow> node \<Rightarrow> comp \<Rightarrow> node \<Rightarrow> comp \<Rightarrow> comp" where
  "evalConditionalExpression_of e test tr consequent cr alternate ar =
     eval_with e test tr
       (\<lambda>v. if truthy v then eval_with e consequent cr Ret else eval_with e alternate ar Ret)"

text \<open>\<^verbatim>\<open>evalMemberExpression\<close> (lines 393 to 395), given \<^verbatim>\<open>evaluateMember(node)\<close>.\<close>

definition evalMemberExpression_of :: "env \<Rightarrow> comp \<Rightarrow> comp" where
  "evalMemberExpression_of e mr =
     bind mr (\<lambda>m. evalSyncAsync (isAsync e) m (\<lambda>t. Ret (arr_nth t 1)))"

text \<open>\<^verbatim>\<open>evalUnaryExpression\<close> (lines 420 to 423).\<close>

definition evalUnaryExpression_of :: "env \<Rightarrow> string \<Rightarrow> node \<Rightarrow> comp \<Rightarrow> comp" where
  "evalUnaryExpression_of e operator argument ar =
     eval_with e argument ar (unary_op (regs e) operator)"

text \<open>
  \<^verbatim>\<open>evalAssignmentExpression\<close> (lines 514 to 520) and \<^verbatim>\<open>evalUpdateExpression\<close> (lines 522 to
  528), given \<^verbatim>\<open>getContextAndKey\<close> of the target.
\<close>

definition evalAssignmentExpression_of ::
  "env \<Rightarrow> string \<Rightarrow> comp \<Rightarrow> node \<Rightarrow> comp \<Rightarrow> comp" where
  "evalAssignmentExpression_of e operator kr right rr =
     bind kr (\<lambda>d. evalSyncAsync (isAsync e) d (\<lambda>dest.
       eval_with e right rr (assign_op (regs e) operator dest)))"

definition evalUpdateExpression_of :: "env \<Rightarrow> string \<Rightarrow> bool \<Rightarrow> comp \<Rightarrow> comp" where
  "evalUpdateExpression_of e operator pre kr =
     bind kr (\<lambda>d. evalSyncAsync (isAsync e) d (\<lambda>dest.
       Act (evalUpdateOperation (hst e) pre operator (arr_nth dest 0) (arr_nth dest 1)) Ret))"

text \<open>\<^verbatim>\<open>getContextAndKey\<close> (lines 545 to 567), its member and conditional branches.\<close>

definition getContextAndKey_member :: "env \<Rightarrow> comp \<Rightarrow> comp" where
  "getContextAndKey_member e mr =
     bind mr (\<lambda>m. evalSyncAsync (isAsync e) m
       (\<lambda>t. context_and_key e (arr_nth t 0) (arr_nth t 2)))"

definition getContextAndKey_conditional ::
  "env \<Rightarrow> node \<Rightarrow> comp \<Rightarrow> comp \<Rightarrow> comp \<Rightarrow> comp" where
  "getContextAndKey_conditional e test tr ck ak =
     eval_with e test tr (\<lambda>t. if truthy t then ck else ak)"

text \<open>
  \<^verbatim>\<open>evalObjectExpression\<close> (lines 577 to 598). The callback of \<^verbatim>\<open>properties.map\<close> is
  \<open>spread_property\<close> at a \<^verbatim>\<open>SpreadElement\<close> (line 582, where \<open>ar\<close> is the argument evaluated by
  the static, synchronous \<^verbatim>\<open>ExpressionEval.eval\<close> with this instance's context and options)
  and \<open>plain_property\<close> at a \<^verbatim>\<open>Property\<close> (lines 584 to 592); at any other node it returns
  \<^verbatim>\<open>undefined\<close>.
\<close>

definition spread_property :: "env \<Rightarrow> node \<Rightarrow> comp \<Rightarrow> val \<Rightarrow> comp" where
  "spread_property e argument ar ob =
     bind (eval_with (e\<lparr>isAsync := False\<rparr>) argument ar Ret)
       (\<lambda>source. Act (object_assign (hst e) ob source) (\<lambda>u. Ret VUndef))"

definition plain_property ::
  "env \<Rightarrow> node \<Rightarrow> comp \<Rightarrow> node \<Rightarrow> comp \<Rightarrow> bool \<Rightarrow> val \<Rightarrow> comp" where
  "plain_property e key kr v vr shorthand ob =
     bind (if node_type key = ''Identifier'' then Ret (identifier_name key)
           else eval_with e key kr Ret)
       (\<lambda>k'. evalSyncAsync (isAsync e) k' (\<lambda>k.
          eval_with e (if shorthand then key else v) (if shorthand then kr else vr)
            (\<lambda>x. Act (set_property (hst e) ob k x) (\<lambda>u. Ret VUndef))))"

primrec properties_map :: "val \<Rightarrow> (val \<Rightarrow> comp) list \<Rightarrow> comp" where
  "properties_map ob [] = Ret (VArr [])"
| "properties_map ob (f # fs) =
     bind (f ob) (\<lambda>r. bind (properties_map ob fs) (\<lambda>rs. Ret (VArr (r # arr_items rs))))"

definition evalObjectExpression_of :: "env \<Rightarrow> (val \<Rightarrow> comp) list \<Rightarrow> comp" where
  "evalObjectExpression_of e callbacks =
     Act new_object (\<lambda>ob.
       bind (properties_map ob callbacks) (\<lambda>arr.
         if isAsync e then PAll (arr_items arr) (\<lambda>p. PThen p (\<lambda>u. Ret ob) Ret)
         else Ret ob))"

subsection \<open>The recursion over the tree\<close>

text \<open>
  What the evaluator computes at a node, for an instance \<open>e\<close>: the evaluator that \<^verbatim>\<open>eval\<close>
  chooses, applied to the node (\<open>s_evaluator\<close>); \<^verbatim>\<open>evaluateMember(node)\<close> (\<open>s_member\<close>);
  \<^verbatim>\<open>getContextAndKey(node)\<close> (\<open>s_key\<close>); and the callback of \<^verbatim>\<open>properties.map\<close> at the node
  (\<open>s_property\<close>). They are defined together by recursion on the node.
\<close>

record sems =
  s_evaluator :: comp
  s_member :: comp
  s_key :: comp
  s_property :: "val \<Rightarrow> comp"

definition plain :: "comp \<Rightarrow> sems" where
  "plain c =
     \<lparr>s_evaluator = c,
      s_member = Throw (TypeError ''not a member expression''),
      s_key = Throw InvalidMemberKey,
      s_property = (\<lambda>ob. Ret VUndef)\<rparr>"

primrec sem :: "node \<Rightarrow> env \<Rightarrow> sems" where
  "sem (Literal v) e =
     plain (dispatch e (Literal v) (method_for EvalLiteral (Literal v) (Ret v)))"
| "sem (Identifier name) e =
     (plain (dispatch e (Identifier name)
        (method_for EvalIdentifier (Identifier name) (evalIdentifier e name))))
     \<lparr>s_key := context_and_key e (ctx e) (VStr name)\<rparr>"
| "sem ThisExpression e =
     plain (dispatch e ThisExpression (method_for EvalThisExpression ThisExpression (Ret (ctx e))))"
| "sem (UnaryExpression operator argument) e =
     plain (dispatch e (UnaryExpression operator argument)
       (method_for EvalUnaryExpression (UnaryExpression operator argument)
          (evalUnaryExpression_of e operator argument (s_evaluator (sem argument e)))))"
| "sem (BinaryExpression operator left right) e =
     plain (dispatch e (BinaryExpression operator left right)
       (method_for EvalBinaryExpression (BinaryExpression operator left right)
          (evalBinaryExpression_of e operator
             left (s_evaluator (sem left e)) right (s_evaluator (sem right e)))))"
| "sem (LogicalExpression operator left right) e =
     plain (dispatch e (LogicalExpression operator left right)
       (method_for EvalBinaryExpression (LogicalExpression operator left right)
          (evalBinaryExpression_of e operator
             left (s_evaluator (sem left e)) right (s_evaluator (sem right e)))))"
| "sem (ConditionalExpression test consequent alternate) e =
     (plain (dispatch e (ConditionalExpression test consequent alternate)
        (method_for EvalConditionalExpression (ConditionalExpression test consequent alternate)
           (evalConditionalExpression_of e test (s_evaluator (sem test e))
              consequent (s_evaluator (sem consequent e))
              alternate (s_evaluator (sem alternate e))))))
     \<lparr>s_key := getContextAndKey_conditional e test (s_evaluator (sem test e))
                 (s_key (sem consequent e)) (s_key (sem alternate e))\<rparr>"
| "sem (MemberExpression ob pr computed optional) e =
     (plain (dispatch e (MemberExpression ob pr computed optional)
        (method_for EvalMemberExpression (MemberExpression ob pr computed optional)
           (evalMemberExpression_of e
              (evaluateMember_of e ob (s_evaluator (sem ob e)) pr (s_evaluator (sem pr e))
                 computed optional)))))
     \<lparr>s_member := evaluateMember_of e ob (s_evaluator (sem ob e)) pr (s_evaluator (sem pr e))
                     computed optional,
      s_key := getContextAndKey_member e
                 (evaluateMember_of e ob (s_evaluator (sem ob e)) pr (s_evaluator (sem pr e))
                    computed optional)\<rparr>"
| "sem (OptionalMemberExpression ob pr computed optional) e =
     (plain (dispatch e (OptionalMemberExpression ob pr computed optional)
        (method_for EvalMemberExpression (OptionalMemberExpression ob pr computed optional)
           (evalMemberExpression_of e
              (evaluateMember_of e ob (s_evaluator (sem ob e)) pr (s_evaluator (sem pr e))
                 computed optional)))))
     \<lparr>s_member := evaluateMember_of e ob (s_evaluator (sem ob e)) pr (s_evaluator (sem pr e))
                     computed optional\<rparr>"
| "sem (CallExpression callee arguments) e =
     plain (dispatch e (CallExpression callee arguments)
       (method_for EvalCallExpression (CallExpression callee arguments)
          (evalCallExpression_of e
             (evalCall_of e callee (s_evaluator (sem callee e)) (s_member (sem callee e)))
             (evalArray_of e (zip arguments (map (\<lambda>a. s_evaluator (sem a e)) arguments))))))"
| "sem (ArrayExpression elements) e =
     plain (dispatch e (ArrayExpression elements)
       (method_for EvalArrayExpression (ArrayExpression elements)
          (evalArray_of e (zip elements (map (\<lambda>a. s_evaluator (sem a e)) elements)))))"
| "sem (ObjectExpression properties) e =
     plain (dispatch e (ObjectExpression properties)
       (method_for EvalObjectExpression (ObjectExpression properties)
          (evalObjectExpression_of e (map (\<lambda>p. s_property (sem p e)) properties))))"
| "sem (Property key v shorthand) e =
     (plain (dispatch e (Property key v shorthand)
        (\<lambda>b. not_modelled (Property key v shorthand))))
     \<lparr>s_property := plain_property e key (s_evaluator (sem key e)) v (s_evaluator (sem v e))
                      shorthand\<rparr>"
| "sem (SpreadElement argument) e =
     (plain (dispatch e (SpreadElement argument)
        (method_for EvalSpreadElement (SpreadElement argument)
           (eval_with e argument (s_evaluator (sem argument e)) Ret))))
     \<lparr>s_property := spread_property e argument
                      (s_evaluator (sem argument (e\<lparr>isAsync := False\<rparr>)))\<rparr>"
| "sem (Compound body) e =
     plain (dispatch e (Compound body)
       (method_for EvalCompoundExpression (Compound body)
          (evalCompoundExpression_of e (zip body (map (\<lambda>a. s_evaluator (sem a e)) body)))))"
| "sem (AssignmentExpression operator left right) e =
     plain (dispatch e (AssignmentExpression operator left right)
       (method_for EvalAssignmentExpression (AssignmentExpression operator left right)
          (evalAssignmentExpression_of e operator (s_key (sem left e))
             right (s_evaluator (sem right e)))))"
| "sem (UpdateExpression operator argument pre) e =
     plain (dispatch e (UpdateExpression operator argument pre)
       (method_for EvalUpdateExpression (UpdateExpression operator argument pre)
          (evalUpdateExpression_of e operator pre (s_key (sem argument e)))))"
| "sem (Other kind) e = plain (dispatch e (Other kind) (\<lambda>b. not_modelled (Other kind)))"

subsection \<open>The methods by their names\<close>

definition evaluator :: "env \<Rightarrow> node \<Rightarrow> comp" where
  "evaluator e nd = s_evaluator (sem nd e)"

definition evaluateMember :: "env \<Rightarrow> node \<Rightarrow> comp" where
  "evaluateMember e nd = s_member (sem nd e)"

definition getContextAndKey :: "env \<Rightarrow> node \<Rightarrow> comp" where
  "getContextAndKey e nd = s_key (sem nd e)"

definition property_callback :: "env \<Rightarrow> node \<Rightarrow> val \<Rightarrow> comp" where
  "property_callback e nd = s_property (sem nd e)"

text \<open>The method \<^verbatim>\<open>eval(node, cb)\<close> of an instance (lines 244 to 270).\<close>

definition eval :: "env \<Rightarrow> node \<Rightarrow> (val \<Rightarrow> comp) \<Rightarrow> comp" where
  "eval e nd cb = eval_with e nd (evaluator e nd) cb"

definition evalCall :: "env \<Rightarrow> node \<Rightarrow> comp" where
  "evalCall e callee = evalCall_of e callee (evaluator e callee) (evaluateMember e callee)"

definition evalArray :: "env \<Rightarrow> node list \<Rightarrow> comp" where
  "evalArray e list = evalArray_of e (zip list (map (evaluator e) list))"

text \<open>
  The static entry points (lines 204 to 210). \<open>evaluate\<close> makes a synchronous instance and
  runs it. \<open>evalAsync\<close> is an \<^verbatim>\<open>async\<close> function: it returns a new promise, rejected with what
  the body throws and resolved with what it returns; \<open>settled\<close> is that promise once the
  job queue has run empty.
\<close>

definition new_instance :: "registries \<Rightarrow> host \<Rightarrow> val \<Rightarrow> bool \<Rightarrow> options option \<Rightarrow> env" where
  "new_instance rg hs this_context async options =
     \<lparr>regs = rg, hst = hs,
      opts = (case options of None \<Rightarrow> defaultOptions rg | Some given \<Rightarrow> given),
      isAsync = async, ctx = this_context\<rparr>"

definition evaluate ::
  "registries \<Rightarrow> host \<Rightarrow> node \<Rightarrow> val \<Rightarrow> options option \<Rightarrow> mstate \<Rightarrow> (error + val) \<times> mstate" where
  "evaluate rg hs ast this_context options s =
     exec (eval (new_instance rg hs this_context False options) ast Ret) s"

definition evalAsync ::
  "registries \<Rightarrow> host \<Rightarrow> node \<Rightarrow> val \<Rightarrow> options option \<Rightarrow> mstate \<Rightarrow> nat \<times> mstate" where
  "evalAsync rg hs ast this_context options s =
     (case new_promise (Pending [] []) s of
        (p, s1) \<Rightarrow>
          (case exec (eval (new_instance rg hs this_context True options) ast Ret) s1 of
             (Inr v, s2) \<Rightarrow> (p, resolve p v s2)
           | (Inl er, s2) \<Rightarrow> (p, reject p er s2)))"

definition settled ::
  "nat \<Rightarrow> nat \<times> mstate \<Rightarrow> (pstate \<times> mstate) option" where
  "settled n ps =
     (case run_queue n (snd ps) of
        None \<Rightarrow> None
      | Some s \<Rightarrow> (case promise_state s (fst ps) of None \<Rightarrow> None | Some st \<Rightarrow> Some (st, s)))"

definition start :: "heap \<Rightarrow> mstate" where
  "start h = \<lparr>heap = h, annotations = [], promises = [], queue = []\<rparr>"

section \<open>Registries and hosts of the examples\<close>

text \<open>
  \<open>uses_builtin\<close>: for this node and heap, no conditional evaluator matches and the table
  names the built-in method \<open>b\<close>. \<open>standard\<close>: the registries of a process in which no
  evaluator was registered: the table of lines 39 to 61 and no conditional evaluators.
\<close>

definition uses_builtin :: "env \<Rightarrow> node \<Rightarrow> builtin \<Rightarrow> heap \<Rightarrow> bool" where
  "uses_builtin e nd b h =
     (find_conditional (regs e) nd (ctx e) h = None
      \<and> evaluators (regs e) (node_type nd) = Some (Builtin b))"

definition standard :: "registries \<Rightarrow> bool" where
  "standard rg = (conditionalEvaluators rg = Map.empty \<and> evaluators rg = default_evaluators)"

text \<open>
  A host without functions, whose objects convert as plain objects do and whose other
  receivers have no properties, and registries with the addition of line 108 on numbers and
  the assignment of line 123.
\<close>

definition example_host :: host where
  "example_host =
     \<lparr>host_to_string = (\<lambda>v. ''[object Object]''),
      host_to_number = (\<lambda>v. VNaN),
      host_key_value = (\<lambda>v k sensitive. Inl (TypeError ''cannot read properties'')),
      host_items = (\<lambda>v. Inl (TypeError ''not iterable'')),
      host_entries = (\<lambda>v. []),
      host_update = (\<lambda>pre operator v k h. (Inl (TypeError ''cannot update''), h)),
      literals = [(''true'', VBool True), (''false'', VBool False), (''null'', VNull)],
      host_call = (\<lambda>f this args h. (Inr VUndef, h))\<rparr>"

definition plus :: "val \<Rightarrow> val \<Rightarrow> val action" where
  "plus a b h =
     (Inr (case a of
             VNum x \<Rightarrow> (case b of VNum y \<Rightarrow> VNum (x + y) | _ \<Rightarrow> VNaN)
           | _ \<Rightarrow> VNaN), h)"

definition assign :: "val \<Rightarrow> val \<Rightarrow> val \<Rightarrow> val action" where
  "assign ob key v h = set_property example_host ob key v h"

definition example_registries :: registries where
  "example_registries =
     \<lparr>evaluators = default_evaluators,
      conditionalEvaluators = Map.empty,
      binops = [''+'' \<mapsto> plus],
      unops = Map.empty,
      assignOps = [''='' \<mapsto> assign],
      defaultOptions = \<lparr>caseSensitive = True\<rparr>\<rparr>"

text \<open>
  Two conditional evaluators for literals, registered in this order: one for the literal
  \<^verbatim>\<open>1\<close> and one for every literal.
\<close>

definition is_one :: predicateCallback where
  "is_one nd c h = (nd = Literal (VNum 1))"

definition always :: predicateCallback where
  "always nd c h = True"

definition give :: "string \<Rightarrow> evaluatorCallback" where
  "give tag nd c h = (Inr (VStr tag), h)"

definition two_conditionals :: registries where
  "two_conditionals =
     addConditionalEvaluator ''Literal'' always (give ''second'')
       (addConditionalEvaluator ''Literal'' is_one (give ''first'') example_registries)"

section \<open>Expressions without effects on one another\<close>

text \<open>
  An operand is \<open>immediate\<close> when its evaluator returns at once, in either mode, a value
  that is not deferred and leaves the state as it is; so are literals, \<^verbatim>\<open>this\<close> and
  identifiers under the standard registries. An action is \<open>harmless\<close> when it leaves the
  heap as it is. A \<open>simple\<close> expression is an immediate one, or one unary, binary, logical,
  conditional or plain member operator over immediate operands, with harmless registered
  functions.
\<close>

definition immediate :: "env \<Rightarrow> heap \<Rightarrow> node \<Rightarrow> val \<Rightarrow> bool" where
  "immediate e h nd v =
     (\<not> is_promise v
      \<and> (\<forall>s async. heap s = h \<longrightarrow> exec (evaluator (e\<lparr>isAsync := async\<rparr>) nd) s = (Inr v, s)))"

definition harmless :: "val action \<Rightarrow> heap \<Rightarrow> bool" where
  "harmless f h = (snd (f h) = h)"

definition simple :: "env \<Rightarrow> heap \<Rightarrow> node \<Rightarrow> bool" where
  "simple e h nd =
     ((\<exists>v. immediate e h nd v)
      \<or> (\<exists>operator a va. nd = UnaryExpression operator a \<and> immediate e h a va
            \<and> (\<forall>f. unops (regs e) operator = Some f \<longrightarrow> harmless (f va) h))
      \<or> (\<exists>operator a b va vb.
            (nd = BinaryExpression operator a b \<or> nd = LogicalExpression operator a b)
            \<and> immediate e h a va \<and> immediate e h b vb
            \<and> (\<forall>f. binops (regs e) operator = Some f \<longrightarrow> harmless (f va vb) h))
      \<or> (\<exists>t a b vt va vb. nd = ConditionalExpression t a b
            \<and> immediate e h t vt \<and> immediate e h a va \<and> immediate e h b vb)
      \<or> (\<exists>a k optional va.
            (nd = MemberExpression a (Identifier k) False optional
             \<or> nd = OptionalMemberExpression a (Identifier k) False optional)
            \<and> immediate e h a va))"

text \<open>The state of a promise that was settled with a result.\<close>

definition settled_as :: "error + val \<Rightarrow> pstate" where
  "settled_as r = (case r of Inl er \<Rightarrow> Rejected er | Inr v \<Rightarrow> Fulfilled v)"

section \<open>Running the evaluator: basic facts\<close>

lemma exec_bind:
  "exec (bind m k) s =
     (case exec m s of (Inl er, s1) \<Rightarrow> (Inl er, s1) | (Inr v, s1) \<Rightarrow> exec (k v) s1)"
  by (induction m arbitrary: s) (auto split: prod.splits sum.splits val.splits)

lemma exec_lift: "exec (lift r) s = (r, s)"
  by (cases r) (simp_all add: lift_def)

lemma exec_eval_with_sync:
  "\<not> isAsync e \<Longrightarrow> exec (eval_with e nd r cb) s =
     (case exec r s of
        (Inl er, s1) \<Rightarrow> (Inl er, s1)
      | (Inr v, s1) \<Rightarrow> exec (cb v) (annotate nd v s1))"
  by (simp add: eval_with_def exec_bind evalSyncAsync_def split: prod.splits sum.splits)

lemma evaluator_dispatch: "\<exists>m. evaluator e nd = dispatch e nd m"
  by (cases nd) (auto simp: evaluator_def plain_def)

lemma exec_dispatch_unknown:
  "find_conditional (regs e) nd (ctx e) (heap s) = None \<Longrightarrow>
   evaluators (regs e) (node_type nd) = None \<Longrightarrow>
   exec (dispatch e nd m) s = (Inl (UnknownNodeType nd), s)"
  by (simp add: dispatch_def)

lemma exec_dispatch_builtin:
  "uses_builtin e nd b (heap s) \<Longrightarrow> exec (dispatch e nd m) s = exec (m b) s"
  by (simp add: dispatch_def uses_builtin_def)

lemma default_evaluators_simps:
  "default_evaluators ''ArrayExpression'' = Some (Builtin EvalArrayExpression)"
  "default_evaluators ''LogicalExpression'' = Some (Builtin EvalBinaryExpression)"
  "default_evaluators ''BinaryExpression'' = Some (Builtin EvalBinaryExpression)"
  "default_evaluators ''CallExpression'' = Some (Builtin EvalCallExpression)"
  "default_evaluators ''Compound'' = Some (Builtin EvalCompoundExpression)"
  "default_evaluators ''ConditionalExpression'' = Some (Builtin EvalConditionalExpression)"
  "default_evaluators ''Identifier'' = Some (Builtin EvalIdentifier)"
  "default_evaluators ''Literal'' = Some (Builtin EvalLiteral)"
  "default_evaluators ''OptionalMemberExpression'' = Some (Builtin EvalMemberExpression)"
  "default_evaluators ''MemberExpression'' = Some (Builtin EvalMemberExpression)"
  "default_evaluators ''ThisExpression'' = Some (Builtin EvalThisExpression)"
  "default_evaluators ''UnaryExpression'' = Some (Builtin EvalUnaryExpression)"
  "default_evaluators ''AssignmentExpression'' = Some (Builtin EvalAssignmentExpression)"
  "default_evaluators ''UpdateExpression'' = Some (Builtin EvalUpdateExpression)"
  "default_evaluators ''ObjectExpression'' = Some (Builtin EvalObjectExpression)"
  "default_evaluators ''SpreadElement'' = Some (Builtin EvalSpreadElement)"
  "default_evaluators ''Property'' = None"
  by (simp_all add: default_evaluators_def)

lemma standard_uses_builtin:
  "standard (regs e) \<Longrightarrow> default_evaluators (node_type nd) = Some (Builtin b) \<Longrightarrow>
   uses_builtin e nd b h"
  by (simp add: standard_def uses_builtin_def find_conditional_def)

lemma map_sem_evaluator: "map (\<lambda>a. s_evaluator (sem a e)) xs = map (evaluator e) xs"
  by (simp add: evaluator_def)

lemma map_sem_property: "map (\<lambda>p. s_property (sem p e)) xs = map (property_callback e) xs"
  by (simp add: property_callback_def)

lemma evaluator_simps:
  "evaluator e (Literal v) = dispatch e (Literal v) (method_for EvalLiteral (Literal v) (Ret v))"
  "evaluator e (Identifier name) =
     dispatch e (Identifier name) (method_for EvalIdentifier (Identifier name) (evalIdentifier e name))"
  "evaluator e ThisExpression =
     dispatch e ThisExpression (method_for EvalThisExpression ThisExpression (Ret (ctx e)))"
  "evaluator e (UnaryExpression operator argument) =
     dispatch e (UnaryExpression operator argument)
       (method_for EvalUnaryExpression (UnaryExpression operator argument)
          (evalUnaryExpression_of e operator argument (evaluator e argument)))"
  "evaluator e (BinaryExpression operator left right) =
     dispatch e (BinaryExpression operator left right)
       (method_for EvalBinaryExpression (BinaryExpression operator left right)
          (evalBinaryExpression_of e operator left (evaluator e left) right (evaluator e right)))"
  "evaluator e (LogicalExpression operator left right) =
     dispatch e (LogicalExpression operator left right)
       (method_for EvalBinaryExpression (LogicalExpression operator left right)
          (evalBinaryExpression_of e operator left (evaluator e left) right (evaluator e right)))"
  "evaluator e (ConditionalExpression test consequent alternate) =
     dispatch e (ConditionalExpression test consequent alternate)
       (method_for EvalConditionalExpression (ConditionalExpression test consequent alternate)
          (evalConditionalExpression_of e test (evaluator e test)
             consequent (evaluator e consequent) alternate (evaluator e alternate)))"
  "evaluator e (MemberExpression ob pr computed optional) =
     dispatch e (MemberExpression ob pr computed optional)
       (method_for EvalMemberExpression (MemberExpression ob pr computed optional)
          (evalMemberExpression_of e (evaluateMember e (MemberExpression ob pr computed optional))))"
  "evaluator e (OptionalMemberExpression ob pr computed optional) =
     dispatch e (OptionalMemberExpression ob pr computed optional)
       (method_for EvalMemberExpression (OptionalMemberExpression ob pr computed optional)
          (evalMemberExpression_of e
             (evaluateMember e (OptionalMemberExpression ob pr computed optional))))"
  "evaluator e (CallExpression callee arguments) =
     dispatch e (CallExpression callee arguments)
       (method_for EvalCallExpression (CallExpression callee arguments)
          (evalCallExpression_of e (evalCall e callee) (evalArray e arguments)))"
  "evaluator e (ArrayExpression elements) =
     dispatch e (ArrayExpression elements)
       (method_for EvalArrayExpression (ArrayExpression elements) (evalArray e elements))"
  "evaluator e (ObjectExpression properties) =
     dispatch e (ObjectExpression properties)
       (method_for EvalObjectExpression (ObjectExpression properties)
          (evalObjectExpression_of e (map (property_callback e) properties)))"
  "evaluator e (Property key pv shorthand) =
     dispatch e (Property key pv shorthand) (\<lambda>b. not_modelled (Property key pv shorthand))"
  "evaluator e (SpreadElement argument) =
     dispatch e (SpreadElement argument)
       (method_for EvalSpreadElement (SpreadElement argument)
          (eval e argument Ret))"
  "evaluator e (Compound body) =
     dispatch e (Compound body)
       (method_for EvalCompoundExpression (Compound body)
          (evalCompoundExpression_of e (zip body (map (evaluator e) body))))"
  "evaluator e (AssignmentExpression operator left right) =
     dispatch e (AssignmentExpression operator left right)
       (method_for EvalAssignmentExpression (AssignmentExpression operator left right)
          (evalAssignmentExpression_of e operator (getContextAndKey e left)
             right (evaluator e right)))"
  "evaluator e (UpdateExpression operator argument pre) =
     dispatch e (UpdateExpression operator argument pre)
       (method_for EvalUpdateExpression (UpdateExpression operator argument pre)
          (evalUpdateExpression_of e operator pre (getContextAndKey e argument)))"
  "evaluator e (Other kind) = dispatch e (Other kind) (\<lambda>b. not_modelled (Other kind))"
  by (simp_all add: evaluator_def [abs_def] evaluateMember_def getContextAndKey_def evalCall_def
      evalArray_def eval_def property_callback_def [abs_def] plain_def)

lemma evaluateMember_simps:
  "evaluateMember e (MemberExpression ob pr computed optional) =
     evaluateMember_of e ob (evaluator e ob) pr (evaluator e pr) computed optional"
  "evaluateMember e (OptionalMemberExpression ob pr computed optional) =
     evaluateMember_of e ob (evaluator e ob) pr (evaluator e pr) computed optional"
  by (simp_all add: evaluator_def evaluateMember_def plain_def)

lemma getContextAndKey_simps:
  "getContextAndKey e (MemberExpression ob pr computed optional) =
     getContextAndKey_member e (evaluateMember e (MemberExpression ob pr computed optional))"
  "getContextAndKey e (Identifier name) = context_and_key e (ctx e) (VStr name)"
  "getContextAndKey e (ConditionalExpression test consequent alternate) =
     getContextAndKey_conditional e test (evaluator e test)
       (getContextAndKey e consequent) (getContextAndKey e alternate)"
  "getContextAndKey e (Literal v) = Throw InvalidMemberKey"
  "getContextAndKey e (Other kind) = Throw InvalidMemberKey"
  by (simp_all add: evaluator_def evaluateMember_def getContextAndKey_def plain_def)

lemma property_callback_simps:
  "property_callback e (SpreadElement argument) =
     spread_property e argument (evaluator (e\<lparr>isAsync := False\<rparr>) argument)"
  "property_callback e (Property key v shorthand) =
     plain_property e key (evaluator e key) v (evaluator e v) shorthand"
  by (simp_all add: evaluator_def property_callback_def plain_def)

lemma exec_evaluator_via:
  "evaluator e nd = dispatch e nd (method_for b nd body) \<Longrightarrow>
   uses_builtin e nd b (heap s) \<Longrightarrow> exec (evaluator e nd) s = exec body s"
  by (simp add: exec_dispatch_builtin method_for_def)

lemma exec_eval_with_async:
  "isAsync e \<Longrightarrow> exec (eval_with e nd r cb) s =
     (case exec r s of
        (Inl er, s1) \<Rightarrow> (Inl er, s1)
      | (Inr x, s1) \<Rightarrow> exec (PResolve x (\<lambda>p. PThen p (\<lambda>v. Annotate nd v (cb v)) Ret)) s1)"
  by (simp add: eval_with_def exec_bind evalSyncAsync_def split: prod.splits sum.splits)

lemma exec_standard:
  assumes "standard (regs e)"
  shows
  "exec (evaluator e (Literal v)) s = (Inr v, s)"
  "exec (evaluator e (Identifier name)) s = exec (evalIdentifier e name) s"
  "exec (evaluator e ThisExpression) s = (Inr (ctx e), s)"
  "exec (evaluator e (UnaryExpression operator argument)) s =
     exec (evalUnaryExpression_of e operator argument (evaluator e argument)) s"
  "exec (evaluator e (BinaryExpression operator left right)) s =
     exec (evalBinaryExpression_of e operator left (evaluator e left) right (evaluator e right)) s"
  "exec (evaluator e (LogicalExpression operator left right)) s =
     exec (evalBinaryExpression_of e operator left (evaluator e left) right (evaluator e right)) s"
  "exec (evaluator e (ConditionalExpression test consequent alternate)) s =
     exec (evalConditionalExpression_of e test (evaluator e test)
             consequent (evaluator e consequent) alternate (evaluator e alternate)) s"
  "exec (evaluator e (MemberExpression ob pr computed optional)) s =
     exec (evalMemberExpression_of e (evaluateMember e (MemberExpression ob pr computed optional))) s"
  "exec (evaluator e (OptionalMemberExpression ob pr computed optional)) s =
     exec (evalMemberExpression_of e
             (evaluateMember e (OptionalMemberExpression ob pr computed optional))) s"
  "exec (evaluator e (CallExpression callee arguments)) s =
     exec (evalCallExpression_of e (evalCall e callee) (evalArray e arguments)) s"
  "exec (evaluator e (ArrayExpression elements)) s = exec (evalArray e elements) s"
  "exec (evaluator e (ObjectExpression properties)) s =
     exec (evalObjectExpression_of e (map (property_callback e) properties)) s"
  "exec (evaluator e (SpreadElement argument)) s = exec (eval e argument Ret) s"
  "exec (evaluator e (Compound body)) s =
     exec (evalCompoundExpression_of e (zip body (map (evaluator e) body))) s"
  "exec (evaluator e (AssignmentExpression operator left right)) s =
     exec (evalAssignmentExpression_of e operator (getContextAndKey e left)
             right (evaluator e right)) s"
  "exec (evaluator e (UpdateExpression operator argument pre)) s =
     exec (evalUpdateExpression_of e operator pre (getContextAndKey e argument)) s"
  using assms
  by (simp_all add: exec_evaluator_via [OF evaluator_simps(1)] exec_evaluator_via [OF evaluator_simps(2)]
      exec_evaluator_via [OF evaluator_simps(3)] exec_evaluator_via [OF evaluator_simps(4)]
      exec_evaluator_via [OF evaluator_simps(5)] exec_evaluator_via [OF evaluator_simps(6)]
      exec_evaluator_via [OF evaluator_simps(7)] exec_evaluator_via [OF evaluator_simps(8)]
      exec_evaluator_via [OF evaluator_simps(9)] exec_evaluator_via [OF evaluator_simps(10)]
      exec_evaluator_via [OF evaluator_simps(11)] exec_evaluator_via [OF evaluator_simps(12)]
      exec_evaluator_via [OF evaluator_simps(14)] exec_evaluator_via [OF evaluator_simps(15)]
      exec_evaluator_via [OF evaluator_simps(16)] exec_evaluator_via [OF evaluator_simps(17)]
      standard_uses_builtin default_evaluators_simps)

lemma run_queue_empty: "queue s = [] \<Longrightarrow> run_queue n s = Some s"
  by (simp add: run_queue.simps)

lemma run_queue_step:
  "queue s = j # js \<Longrightarrow> run_queue (Suc n) s = run_queue n (run_job j (s\<lparr>queue := js\<rparr>))"
  by (simp add: run_queue.simps)

lemma run_queue_numeral:
  "queue s = j # js \<Longrightarrow>
   run_queue (numeral k) s = run_queue (pred_numeral k) (run_job j (s\<lparr>queue := js\<rparr>))"
  by (simp add: numeral_eq_Suc run_queue_step)

lemma promise_resolve_plain:
  "\<not> is_promise v \<Longrightarrow> promise_resolve v s = new_promise (Fulfilled v) s"
  by (cases v) (simp_all add: promise_resolve_def)

lemma promise_resolve_promise: "promise_resolve (VPromise q) s = (q, s)"
  by (simp add: promise_resolve_def)

lemma resolve_plain: "\<not> is_promise v \<Longrightarrow> resolve p v s = fulfil p v s"
  by (cases v) (simp_all add: resolve_def)

lemma resolve_promise:
  "resolve p (VPromise q) s = s\<lparr>queue := queue s @ [ThenableJob p q]\<rparr>"
  by (simp add: resolve_def)

lemmas machine_defs = evalAsync_def settled_def new_promise_def promise_state_def settle_def
  fulfil_def reject_def promise_resolve_plain resolve_plain promise_resolve_promise
  resolve_promise perform_then_def promise_all_def all_element_def start_def annotate_def

lemma standard_example_registries: "standard example_registries"
  by (simp add: standard_def example_registries_def)

lemma regs_new_instance [simp]:
  "regs (new_instance rg hs c async options) = rg"
  "hst (new_instance rg hs c async options) = hs"
  "ctx (new_instance rg hs c async options) = c"
  "isAsync (new_instance rg hs c async options) = async"
  "opts (new_instance rg hs c async options) =
     (case options of None \<Rightarrow> defaultOptions rg | Some given \<Rightarrow> given)"
  by (simp_all add: new_instance_def)

lemmas lookup_defs = evalIdentifier_def lookup_value_def getValue_def getKeyValue_def
  heap_get_def same_key_def

lemma exec_evalSyncAsync_sync: "exec (evalSyncAsync False v cb) s = exec (cb v) s"
  by (simp add: evalSyncAsync_def)

lemmas update_defs = evalUpdateExpression_of_def getContextAndKey_simps context_and_key_def
  evalUpdateOperation_def obj_get_def arr_nth_def arr_items_def

lemmas array_defs = evalArray_def evalArray_of_def toFullArray_def

lemmas object_defs = evalObjectExpression_of_def property_callback_simps spread_property_def
  plain_property_def object_assign_def obj_assign_def set_property_def new_object_def

section \<open>Properties of the blocklist\<close>

lemma list_ex_prefix_suffixes:
  "list_ex (prefix l) (suffixes s) = sublist l s"
proof
  assume "list_ex (prefix l) (suffixes s)"
  then obtain t where t: "suffix t s" "prefix l t"
    by (auto simp: list_ex_iff)
  then obtain ps zs where "s = ps @ t" "t = l @ zs"
    by (auto simp: suffix_def prefix_def)
  then have "s = ps @ l @ zs" by simp
  then show "sublist l s" unfolding sublist_def by blast
next
  assume "sublist l s"
  then obtain ps ss where s: "s = ps @ l @ ss" unfolding sublist_def by blast
  then have "suffix (l @ ss) s" "prefix l (l @ ss)"
    by (simp_all add: suffix_def)
  then have "l @ ss \<in> set (suffixes s)" "prefix l (l @ ss)"
    by (simp_all add: in_set_suffixes)
  then show "list_ex (prefix l) (suffixes s)"
    unfolding list_ex_iff by blast
qed

lemma list_ex_eq_suffixes:
  "list_ex (\<lambda>t. t = l) (suffixes s) = suffix l s"
  by (auto simp: list_ex_iff)

lemma regex_test_member_blocklist:
  "regex_test member_blocklist key =
     (prefix ''__proto__'' key \<or> sublist ''prototype'' key \<or> suffix ''constructor'' key)"
  unfolding regex_test_def member_blocklist_def alternative_test_def matches_here_def
  by (simp add: list_ex_prefix_suffixes list_ex_eq_suffixes)



section \<open>Unknown node kinds\<close>

lemma exec_eval_unknown:
  assumes "find_conditional (regs e) nd (ctx e) (heap s) = None"
    and "evaluators (regs e) (node_type nd) = None"
  shows "exec (eval e nd cb) s = (Inl (UnknownNodeType nd), s)"
proof -
  obtain m where m: "evaluator e nd = dispatch e nd m"
    using evaluator_dispatch by blast
  have "exec (evaluator e nd) s = (Inl (UnknownNodeType nd), s)"
    unfolding m using assms by (rule exec_dispatch_unknown)
  then show ?thesis
    by (simp add: eval_def eval_with_def exec_bind)
qed



section \<open>Conditional evaluators\<close>

lemma find_first_match:
  "\<forall>q\<in>set before. \<not> P q \<Longrightarrow> P x \<Longrightarrow> find P (before @ x # after) = Some x"
  by (induction before) simp_all

lemma exec_dispatch_conditional:
  "find_conditional (regs e) nd (ctx e) (heap s) = Some proba \<Longrightarrow>
   exec (dispatch e nd m) s = exec (Act (cond_evaluator proba nd (ctx e)) Ret) s"
  by (simp add: dispatch_def)

lemma exec_dispatch_table:
  "find_conditional (regs e) nd (ctx e) (heap s) = None \<Longrightarrow>
   exec (dispatch e nd m) s =
     (case evaluators (regs e) (node_type nd) of
        None \<Rightarrow> (Inl (UnknownNodeType nd), s)
      | Some (Custom f) \<Rightarrow> exec (Act (f nd (ctx e)) Ret) s
      | Some (Builtin b) \<Rightarrow> exec (m b) s)"
  by (simp add: dispatch_def split: option.splits evaluator.splits)

lemma conditionalEvaluators_add:
  "conditionalEvaluators (addConditionalEvaluator k p ev rg) k' =
     (if k' = k
      then Some ((case conditionalEvaluators rg k of None \<Rightarrow> [] | Some l \<Rightarrow> l)
                 @ [\<lparr>predicate = p, cond_evaluator = ev\<rparr>])
      else conditionalEvaluators rg k')"
  by (simp add: addConditionalEvaluator_def Let_def)



section \<open>The member-access blocklist in evaluation\<close>

lemma blocked_names:
  "key \<in> {''__proto__'', ''prototype'', ''constructor''} \<Longrightarrow> regex_test member_blocklist key"
  by (auto simp: regex_test_member_blocklist)

lemma member_key_blocked:
  "regex_test member_blocklist (to_string (hst e) key) \<Longrightarrow>
   member_key e optional object key = Throw (AccessDenied (to_string (hst e) key))"
  by (simp add: member_key_def)

lemma exec_evaluateMember_of_sync:
  assumes "\<not> isAsync e" and "exec obr s = (Inr object, s1)"
  shows "exec (evaluateMember_of e ob obr pr prr computed optional) s =
     (if computed then
        (case exec prr (annotate ob object s1) of
           (Inl er, s2) \<Rightarrow> (Inl er, s2)
         | (Inr k, s2) \<Rightarrow> exec (member_key e optional object k) (annotate pr k s2))
      else exec (member_key e optional object (identifier_name pr)) (annotate ob object s1))"
  using assms
  by (simp add: evaluateMember_of_def exec_eval_with_sync exec_bind evalSyncAsync_def
      split: prod.splits sum.splits)

lemma exec_eval_builtin_sync:
  assumes "\<not> isAsync e" and "evaluator e nd = dispatch e nd (method_for b nd body)"
    and "uses_builtin e nd b (heap s)"
  shows "exec (eval e nd cb) s =
     (case exec body s of
        (Inl er, s1) \<Rightarrow> (Inl er, s1)
      | (Inr v, s1) \<Rightarrow> exec (cb v) (annotate nd v s1))"
proof -
  have "exec (evaluator e nd) s = exec body s"
    using assms(2,3) by (rule exec_evaluator_via)
  then show ?thesis
    using assms(1) by (simp add: eval_def exec_eval_with_sync)
qed



section \<open>Logical and binary operators\<close>

lemma exec_evalBinaryExpression_and_sync:
  assumes "\<not> isAsync e" and "exec lr s = (Inr l, s1)" and "\<not> truthy l"
  shows "exec (evalBinaryExpression_of e ''&&'' left lr right rr) s = (Inr l, annotate left l s1)"
  using assms by (simp add: evalBinaryExpression_of_def exec_eval_with_sync)

lemma exec_evalBinaryExpression_or_sync:
  assumes "\<not> isAsync e" and "exec lr s = (Inr l, s1)" and "truthy l"
  shows "exec (evalBinaryExpression_of e ''||'' left lr right rr) s = (Inr l, annotate left l s1)"
  using assms by (simp add: evalBinaryExpression_of_def exec_eval_with_sync)

lemma exec_evalBinaryExpression_other_sync:
  assumes "\<not> isAsync e" and "operator \<noteq> ''&&''" and "operator \<noteq> ''||''"
  shows "exec (evalBinaryExpression_of e operator left lr right rr) s =
     (case exec lr s of
        (Inl er, s1) \<Rightarrow> (Inl er, s1)
      | (Inr l, s1) \<Rightarrow>
          (case exec rr (annotate left l s1) of
             (Inl er, s2) \<Rightarrow> (Inl er, s2)
           | (Inr r, s2) \<Rightarrow> exec (binary_op (regs e) operator (VArr [l, r])) (annotate right r s2)))"
  using assms
  by (simp add: evalBinaryExpression_of_def exec_eval_with_sync exec_bind
      split: prod.splits sum.splits)

lemma exec_evalBinaryExpression_other_async:
  assumes "isAsync e" and "operator \<noteq> ''&&''" and "operator \<noteq> ''||''"
  shows "exec (evalBinaryExpression_of e operator left lr right rr) s =
     (case exec (eval_with e left lr Ret) s of
        (Inl er, s1) \<Rightarrow> (Inl er, s1)
      | (Inr pl, s1) \<Rightarrow>
          (case exec (eval_with e right rr Ret) s1 of
             (Inl er, s2) \<Rightarrow> (Inl er, s2)
           | (Inr pr, s2) \<Rightarrow>
               exec (PAll [pl, pr] (\<lambda>p. PThen p (binary_op (regs e) operator) Ret)) s2))"
  using assms
  by (simp add: evalBinaryExpression_of_def exec_bind split: prod.splits sum.splits)

lemma evaluator_binary:
  assumes "nd = BinaryExpression operator left right \<or> nd = LogicalExpression operator left right"
  shows "evaluator e nd = dispatch e nd (method_for EvalBinaryExpression nd
     (evalBinaryExpression_of e operator left (evaluator e left) right (evaluator e right)))"
  using assms by (auto simp: evaluator_simps)

lemma all_element_waits:
  assumes "promise_state s a = Some (Pending rs slots)"
    and "j < length slots" and "j \<noteq> i" and "slots ! j = None"
  shows "promise_state (all_element a i v s) a = Some (Pending rs (slots[i := Some v]))"
proof -
  have "\<not> list_all (\<lambda>x. x \<noteq> None) (slots[i := Some v])"
    using assms(2-4) by (auto simp: list_all_length)
  then show ?thesis
    using assms(1) by (auto simp: all_element_def promise_state_def Let_def split: if_splits)
qed

text \<open>
  C4. For a binary or logical node whose operator is \<^verbatim>\<open>&&\<close> and whose left operand evaluates
  to a falsy value (and for \<^verbatim>\<open>||\<close> with a truthy one), the result is the left value and the
  state is the one the left operand left: the right operand is not evaluated, whatever it
  is. For every other operator the left operand is evaluated, then the right one, and the
  registered function is applied to the two values after that, if both evaluations
  succeeded; in asynchronous mode both evaluations are started before \<^verbatim>\<open>Promise.all\<close>, whose
  promise stays pending until both values have arrived and whose reaction applies the
  function.
\<close>

theorem logical_operators_short_circuit:
  assumes "nd = BinaryExpression operator left right \<or> nd = LogicalExpression operator left right"
  shows
  "(\<not> isAsync e \<and> uses_builtin e nd EvalBinaryExpression (heap s)
      \<and> exec (evaluator e left) s = (Inr l, s1)
      \<and> (operator = ''&&'' \<and> \<not> truthy l \<or> operator = ''||'' \<and> truthy l)
    \<longrightarrow> exec (evaluator e nd) s = (Inr l, annotate left l s1))
   \<and> (\<not> isAsync e \<and> uses_builtin e nd EvalBinaryExpression (heap s)
      \<and> operator \<noteq> ''&&'' \<and> operator \<noteq> ''||''
    \<longrightarrow> exec (evaluator e nd) s =
        (case exec (evaluator e left) s of
           (Inl er, s1) \<Rightarrow> (Inl er, s1)
         | (Inr a, s1) \<Rightarrow>
             (case exec (evaluator e right) (annotate left a s1) of
                (Inl er, s2) \<Rightarrow> (Inl er, s2)
              | (Inr b, s2) \<Rightarrow>
                  exec (binary_op (regs e) operator (VArr [a, b])) (annotate right b s2))))
   \<and> (isAsync e \<and> uses_builtin e nd EvalBinaryExpression (heap s)
      \<and> operator \<noteq> ''&&'' \<and> operator \<noteq> ''||''
    \<longrightarrow> exec (evaluator e nd) s =
        (case exec (eval e left Ret) s of
           (Inl er, s1) \<Rightarrow> (Inl er, s1)
         | (Inr pl, s1) \<Rightarrow>
             (case exec (eval e right Ret) s1 of
                (Inl er, s2) \<Rightarrow> (Inl er, s2)
              | (Inr pr, s2) \<Rightarrow>
                  exec (PAll [pl, pr] (\<lambda>p. PThen p (binary_op (regs e) operator) Ret)) s2)))
   \<and> (promise_state s' p = Some (Pending rs [None, None])
    \<longrightarrow> promise_state (all_element p 0 v s') p = Some (Pending rs [Some v, None])
      \<and> promise_state (all_element p 1 v s') p = Some (Pending rs [None, Some v]))
   \<and> (standard rg \<and> \<not> is_promise v \<and> left = Literal v
      \<and> (operator = ''&&'' \<and> \<not> truthy v \<or> operator = ''||'' \<and> truthy v)
    \<longrightarrow> map_option (\<lambda>r. (fst r, heap (snd r), annotations (snd r)))
          (settled 20 (evalAsync rg hs nd c options (start h)))
        = Some (Fulfilled v, h, [(Literal v, v), (nd, v)]))"
proof -
  note ev = evaluator_binary [OF assms]
  have c1: "\<not> isAsync e \<and> uses_builtin e nd EvalBinaryExpression (heap s)
      \<and> exec (evaluator e left) s = (Inr l, s1)
      \<and> (operator = ''&&'' \<and> \<not> truthy l \<or> operator = ''||'' \<and> truthy l)
    \<longrightarrow> exec (evaluator e nd) s = (Inr l, annotate left l s1)"
    by (auto simp: exec_evaluator_via [OF ev] exec_evalBinaryExpression_and_sync
        exec_evalBinaryExpression_or_sync)
  have c2: "\<not> isAsync e \<and> uses_builtin e nd EvalBinaryExpression (heap s)
      \<and> operator \<noteq> ''&&'' \<and> operator \<noteq> ''||''
    \<longrightarrow> exec (evaluator e nd) s =
        (case exec (evaluator e left) s of
           (Inl er, s1) \<Rightarrow> (Inl er, s1)
         | (Inr a, s1) \<Rightarrow>
             (case exec (evaluator e right) (annotate left a s1) of
                (Inl er, s2) \<Rightarrow> (Inl er, s2)
              | (Inr b, s2) \<Rightarrow>
                  exec (binary_op (regs e) operator (VArr [a, b])) (annotate right b s2)))"
    by (simp add: exec_evaluator_via [OF ev] exec_evalBinaryExpression_other_sync)
  have c3: "isAsync e \<and> uses_builtin e nd EvalBinaryExpression (heap s)
      \<and> operator \<noteq> ''&&'' \<and> operator \<noteq> ''||''
    \<longrightarrow> exec (evaluator e nd) s =
        (case exec (eval e left Ret) s of
           (Inl er, s1) \<Rightarrow> (Inl er, s1)
         | (Inr pl, s1) \<Rightarrow>
             (case exec (eval e right Ret) s1 of
                (Inl er, s2) \<Rightarrow> (Inl er, s2)
              | (Inr pr, s2) \<Rightarrow>
                  exec (PAll [pl, pr] (\<lambda>p. PThen p (binary_op (regs e) operator) Ret)) s2))"
    unfolding eval_def
    by (simp add: exec_evaluator_via [OF ev] exec_evalBinaryExpression_other_async)
  have c4: "promise_state s' p = Some (Pending rs [None, None])
    \<longrightarrow> promise_state (all_element p 0 v s') p = Some (Pending rs [Some v, None])
      \<and> promise_state (all_element p 1 v s') p = Some (Pending rs [None, Some v])"
    using all_element_waits [of s' p rs "[None, None]" 1 0 v]
      all_element_waits [of s' p rs "[None, None]" 0 1 v]
    by simp
  have c5: "standard rg \<and> \<not> is_promise v \<and> left = Literal v
      \<and> (operator = ''&&'' \<and> \<not> truthy v \<or> operator = ''||'' \<and> truthy v)
    \<longrightarrow> map_option (\<lambda>r. (fst r, heap (snd r), annotations (snd r)))
          (settled 20 (evalAsync rg hs nd c options (start h)))
        = Some (Fulfilled v, h, [(Literal v, v), (nd, v)])"
    using assms
    by (auto simp: machine_defs run_queue_numeral run_queue_empty new_instance_def eval_def
        exec_eval_with_async exec_bind exec_standard evalBinaryExpression_of_def)
  show ?thesis
    using c1 c2 c3 c4 c5 by blast
qed

theorem logical_operators_short_circuit_witness:
  "evaluate example_registries example_host
      (BinaryExpression ''&&'' (Literal (VBool False)) (Other ''Boom'')) VUndef None (start [])
     = (Inr (VBool False),
        annotate (BinaryExpression ''&&'' (Literal (VBool False)) (Other ''Boom'')) (VBool False)
          (annotate (Literal (VBool False)) (VBool False) (start [])))
   \<and> evaluate example_registries example_host (Other ''Boom'') VUndef None (start [])
     = (Inl (UnknownNodeType (Other ''Boom'')), start [])
   \<and> map_option (\<lambda>r. (fst r, heap (snd r), annotations (snd r)))
        (settled 20 (evalAsync example_registries example_host
           (BinaryExpression ''&&'' (Literal (VBool False)) (Other ''Boom'')) VUndef None
           (start [])))
     = Some (Fulfilled (VBool False), [],
         [(Literal (VBool False), VBool False),
          (BinaryExpression ''&&'' (Literal (VBool False)) (Other ''Boom''), VBool False)])
   \<and> fst (evaluate example_registries example_host
        (BinaryExpression ''+'' (Literal (VNum 1)) (Literal (VNum 2))) VUndef None (start []))
     = Inr (VNum 3)"
proof -
  let ?e = "new_instance example_registries example_host VUndef False None"
  let ?nd = "BinaryExpression ''&&'' (Literal (VBool False)) (Other ''Boom'')"
  let ?sum = "BinaryExpression ''+'' (Literal (VNum 1)) (Literal (VNum 2))"
  note std = standard_example_registries
  have u: "uses_builtin ?e ?nd EvalBinaryExpression (heap (start []))"
    "uses_builtin ?e ?sum EvalBinaryExpression (heap (start []))"
    by (simp_all add: standard_uses_builtin std default_evaluators_simps)
  have l: "\<And>v s. exec (evaluator ?e (Literal v)) s = (Inr v, s)"
    by (simp add: exec_standard std)
  have 1: "exec (evaluator ?e ?nd) (start [])
      = (Inr (VBool False), annotate (Literal (VBool False)) (VBool False) (start []))"
    using logical_operators_short_circuit [where nd = ?nd and operator = "''&&''"
        and left = "Literal (VBool False)" and right = "Other ''Boom''" and e = ?e
        and s = "start []" and ?s1.0 = "start []" and l = "VBool False"] u l
    by simp
  have 2: "evaluate example_registries example_host (Other ''Boom'') VUndef None (start [])
     = (Inl (UnknownNodeType (Other ''Boom'')), start [])"
    by (simp add: evaluate_def exec_eval_unknown find_conditional_def example_registries_def
        default_evaluators_def)
  have 3: "map_option (\<lambda>r. (fst r, heap (snd r), annotations (snd r)))
        (settled 20 (evalAsync example_registries example_host ?nd VUndef None (start [])))
     = Some (Fulfilled (VBool False), [], [(Literal (VBool False), VBool False), (?nd, VBool False)])"
    using logical_operators_short_circuit [where nd = ?nd and operator = "''&&''"
        and left = "Literal (VBool False)" and right = "Other ''Boom''"
        and rg = example_registries and v = "VBool False" and hs = example_host
        and c = VUndef and options = None and h = "[]"] std
    by simp
  have 4: "exec (evaluator ?e ?sum) (start [])
      = (Inr (VNum 3), annotate (Literal (VNum 2)) (VNum 2)
           (annotate (Literal (VNum 1)) (VNum 1) (start [])))"
    using logical_operators_short_circuit [where nd = ?sum and operator = "''+''"
        and left = "Literal (VNum 1)" and right = "Literal (VNum 2)" and e = ?e
        and s = "start []"] u l
    by (simp add: binary_op_def example_registries_def [THEN arg_cong, of binops] plus_def
        arr_nth_def arr_items_def)
  show ?thesis
    using 1 2 3 4 by (simp add: evaluate_def eval_def exec_eval_with_sync)
qed

section \<open>Optional member access\<close>

lemma getValue_fresh_object:
  "getValue hs (h @ [[]]) (VRef (length h)) name options = Inr VUndef"
  by (simp add: getValue_def getKeyValue_def heap_get_def)

lemma exec_member_key_optional_nothing:
  assumes "\<not> truthy object"
    and "\<not> regex_test member_blocklist (to_string (hst e) key)"
  shows "exec (member_key e True object key) s =
     (Inr (VArr [object, VUndef, key]), s\<lparr>heap := heap s @ [[]]\<rparr>)"
  using assms
  by (simp add: member_key_def exec_bind new_object_def getValue_fresh_object)

lemma evaluator_member:
  assumes "nd = MemberExpression ob pr computed optional
      \<or> nd = OptionalMemberExpression ob pr computed optional"
  shows "evaluator e nd = dispatch e nd (method_for EvalMemberExpression nd
     (evalMemberExpression_of e
        (evaluateMember_of e ob (evaluator e ob) pr (evaluator e pr) computed optional)))"
  using assms by (auto simp: evaluator_simps evaluateMember_simps)



section \<open>Calls through an optional member\<close>

lemma validateFnAndCall_optional_nothing:
  assumes "\<not> truthy fn" and "\<not> is_function fn" and "node_optional callee"
  shows "validateFnAndCall fn (Receiver receiver) (Some callee) = Inr (VArr [VNoopFn, receiver])"
  using assms by (simp add: validateFnAndCall_def)

lemma apply_fn_noop: "apply_fn e (VArr [VNoopFn, receiver]) args = Ret VUndef"
  by (simp add: apply_fn_def arr_nth_def arr_items_def Let_def)

text \<open>
  C8. When the callee of a call is a \<^verbatim>\<open>MemberExpression\<close> marked optional that resolves to
  \<^verbatim>\<open>undefined\<close> or \<^verbatim>\<open>null\<close>, \<^verbatim>\<open>validateFnAndCall\<close> does not throw but returns a function that
  returns \<^verbatim>\<open>undefined\<close>, with the receiver; the call node does not stop there: it evaluates
  its arguments and applies that function. So the call yields \<^verbatim>\<open>undefined\<close> in the state
  the arguments left, with their side effects, and fails only if evaluating the arguments
  fails.
\<close>

theorem optional_call_of_nothing_evaluates_arguments:
  assumes "callee = MemberExpression ob pr computed True"
    and "fn = VUndef \<or> fn = VNull"
  shows
  "validateFnAndCall fn (Receiver receiver) (Some callee) = Inr (VArr [VNoopFn, receiver])
   \<and> apply_fn e (VArr [VNoopFn, receiver]) a = Ret VUndef
   \<and> (\<not> isAsync e
      \<and> uses_builtin e (CallExpression callee arguments) EvalCallExpression (heap s)
      \<and> exec (evaluateMember e callee) s = (Inr (VArr [receiver, fn, key]), s1)
      \<and> exec (evalArray e arguments) s1 = (r, s2)
    \<longrightarrow> exec (evaluator e (CallExpression callee arguments)) s
        = ((case r of Inl er \<Rightarrow> Inl er | Inr argv \<Rightarrow> Inr VUndef), s2))"
proof -
  have f: "\<not> truthy fn" "\<not> is_function fn"
    using assms(2) by auto
  have o: "node_optional callee"
    using assms(1) by simp
  note v = validateFnAndCall_optional_nothing [OF f o]
  have c: "\<not> isAsync e
      \<and> uses_builtin e (CallExpression callee arguments) EvalCallExpression (heap s)
      \<and> exec (evaluateMember e callee) s = (Inr (VArr [receiver, fn, key]), s1)
      \<and> exec (evalArray e arguments) s1 = (r, s2)
    \<longrightarrow> exec (evaluator e (CallExpression callee arguments)) s
        = ((case r of Inl er \<Rightarrow> Inl er | Inr argv \<Rightarrow> Inr VUndef), s2)"
    using assms(1)
    by (auto simp: exec_evaluator_via [OF evaluator_simps(10)] evalCallExpression_of_def
        evalCall_def exec_bind exec_evalSyncAsync_sync exec_lift v [unfolded assms(1)]
        apply_fn_noop arr_nth_def arr_items_def split: sum.splits)
  show ?thesis
    using v apply_fn_noop c by blast
qed

theorem optional_call_of_nothing_evaluates_arguments_witness:
  "(\<lambda>r. (fst r, heap (snd r)))
     (evaluate example_registries example_host
        (CallExpression (MemberExpression (Identifier ''obj'') (Identifier ''f'') False True)
           [UpdateExpression ''++'' (Identifier ''x'') False])
        (VRef 0) None (start [[(''obj'', VRef 1), (''x'', VNum 5)], []]))
     = (Inr VUndef, [[(''obj'', VRef 1), (''x'', VNum 6)], []])
   \<and> map_option (\<lambda>r. (fst r, heap (snd r)))
        (settled 40 (evalAsync example_registries example_host
           (CallExpression (MemberExpression (Identifier ''obj'') (Identifier ''f'') False True)
              [UpdateExpression ''++'' (Identifier ''x'') False])
           (VRef 0) None (start [[(''obj'', VRef 1), (''x'', VNum 5)], []])))
     = Some (Fulfilled VUndef, [[(''obj'', VRef 1), (''x'', VNum 6)], []])"
proof -
  let ?e = "new_instance example_registries example_host (VRef 0) False None"
  let ?callee = "MemberExpression (Identifier ''obj'') (Identifier ''f'') False True"
  let ?arg = "UpdateExpression ''++'' (Identifier ''x'') False"
  let ?nd = "CallExpression ?callee [?arg]"
  let ?h = "[[(''obj'', VRef 1), (''x'', VNum 5)], []]"
  let ?s = "start ?h"
  let ?s1 = "annotate (Identifier ''obj'') (VRef 1) ?s"
  let ?s2 = "annotate ?arg (VNum 5) (?s1\<lparr>heap := [[(''obj'', VRef 1), (''x'', VNum 6)], []]\<rparr>)"
  note std = standard_example_registries
  note opt = example_registries_def [THEN arg_cong, of defaultOptions]
  have nb: "\<not> regex_test member_blocklist ''f''"
    by code_simp
  have u: "uses_builtin ?e ?nd EvalCallExpression (heap ?s)"
    by (simp add: standard_uses_builtin std default_evaluators_simps)
  have m: "exec (evaluateMember ?e ?callee) ?s = (Inr (VArr [VRef 1, VUndef, VStr ''f'']), ?s1)"
    using nb
    by (simp add: evaluateMember_simps exec_evaluateMember_of_sync exec_standard std
        member_key_def lookup_defs exec_bind start_def annotate_def opt)
  have a: "exec (evalArray ?e [?arg]) ?s1 = (Inr (VArr [VNum 5]), ?s2)"
    by (simp add: array_defs exec_bind exec_eval_with_sync exec_standard std update_defs
        lookup_defs evalSyncAsync_def start_def annotate_def opt example_host_def)
  have 1: "exec (evaluator ?e ?nd) ?s = (Inr VUndef, ?s2)"
    using optional_call_of_nothing_evaluates_arguments [where callee = ?callee
        and ob = "Identifier ''obj''" and pr = "Identifier ''f''" and computed = False
        and fn = VUndef and e = ?e and arguments = "[?arg]" and s = ?s and receiver = "VRef 1"
        and key = "VStr ''f''" and ?s1.0 = ?s1 and r = "Inr (VArr [VNum 5])" and ?s2.0 = ?s2]
      u m a
    by simp
  have 2: "map_option (\<lambda>r. (fst r, heap (snd r)))
        (settled 40 (evalAsync example_registries example_host ?nd (VRef 0) None ?s))
     = Some (Fulfilled VUndef, [[(''obj'', VRef 1), (''x'', VNum 6)], []])"
    using nb
    by (simp add: machine_defs run_queue_numeral run_queue_empty eval_def
        exec_eval_with_async exec_bind exec_lift exec_standard std evalCallExpression_of_def
        evalCall_def evaluateMember_simps evaluateMember_of_def evalSyncAsync_def member_key_def
        lookup_defs update_defs array_defs validateFnAndCall_def apply_fn_def opt
        example_host_def)
  show ?thesis
    using 1 2 by (simp add: evaluate_def eval_def exec_eval_with_sync annotate_def)
qed

section \<open>Increment and decrement\<close>

lemma obj_get_obj_put: "obj_get (obj_put k v entries) k = v"
  by (induction entries) (auto simp: obj_get_def)

lemma find_key_map_of:
  "map_of entries k = Some v \<Longrightarrow> find (\<lambda>kv. fst kv = k) entries = Some (k, v)"
  by (induction entries) (auto split: if_splits)

lemma exec_context_and_key_found:
  assumes "caseSensitive (opts e)" and "heap_get (heap s) a = Some entries"
    and "map_of entries name = Some v"
  shows "exec (context_and_key e (VRef a) (VStr name)) s = (Inr (VArr [VRef a, VStr name]), s)"
  using assms
  by (simp add: context_and_key_def getKeyValue_def same_key_def find_key_map_of)



section \<open>Object expressions with spread\<close>

text \<open>
  C3. Object expressions are claimed to apply their properties in declaration order in both
  modes. The synchronous evaluation of \<^verbatim>\<open>{x: 1, ...a}\<close> with \<^verbatim>\<open>a = {x: 2}\<close> does: the spread
  comes last and the result has \<^verbatim>\<open>x = 2\<close>. The asynchronous evaluation of the same
  expression merges the spread at once, while \<^verbatim>\<open>properties.map\<close> runs, and assigns the
  property \<^verbatim>\<open>x\<close> in a later job: the result has \<^verbatim>\<open>x = 1\<close>.
\<close>

theorem object_spread_after_property_differs_by_mode:
  "(case evaluate example_registries example_host
           (ObjectExpression
              [Property (Identifier ''x'') (Literal (VNum 1)) False,
               SpreadElement (Identifier ''a'')])
           (VRef 0) None (start [[(''a'', VRef 1)], [(''x'', VNum 2)]]) of
      (Inr (VRef r), s) \<Rightarrow> heap_get (heap s) r
    | _ \<Rightarrow> None) = Some [(''x'', VNum 2)]
   \<and> (case settled 40 (evalAsync example_registries example_host
           (ObjectExpression
              [Property (Identifier ''x'') (Literal (VNum 1)) False,
               SpreadElement (Identifier ''a'')])
           (VRef 0) None (start [[(''a'', VRef 1)], [(''x'', VNum 2)]])) of
      Some (Fulfilled (VRef r), s) \<Rightarrow> heap_get (heap s) r
    | _ \<Rightarrow> None) = Some [(''x'', VNum 1)]"
proof -
  note std = standard_example_registries
  note opt = example_registries_def [THEN arg_cong, of defaultOptions]
  let ?nd = "ObjectExpression
              [Property (Identifier ''x'') (Literal (VNum 1)) False,
               SpreadElement (Identifier ''a'')]"
  let ?s = "start [[(''a'', VRef 1)], [(''x'', VNum 2)]]"
  have 1: "(\<lambda>r. (fst r, heap (snd r))) (evaluate example_registries example_host ?nd (VRef 0) None ?s)
      = (Inr (VRef 2), [[(''a'', VRef 1)], [(''x'', VNum 2)], [(''x'', VNum 2)]])"
    by (simp add: evaluate_def eval_def exec_eval_with_sync exec_bind exec_standard std
        object_defs lookup_defs evalSyncAsync_def start_def annotate_def opt example_host_def)
  have 2: "map_option (\<lambda>r. (fst r, heap (snd r)))
        (settled 40 (evalAsync example_registries example_host ?nd (VRef 0) None ?s))
      = Some (Fulfilled (VRef 2), [[(''a'', VRef 1)], [(''x'', VNum 2)], [(''x'', VNum 1)]])"
    by (simp add: machine_defs run_queue_numeral run_queue_empty eval_def
        exec_eval_with_async exec_eval_with_sync exec_bind exec_standard std
        object_defs lookup_defs evalSyncAsync_def opt example_host_def arr_items_def)
  from 1 have a: "(case evaluate example_registries example_host ?nd (VRef 0) None ?s of
      (Inr (VRef r), s) \<Rightarrow> heap_get (heap s) r
    | _ \<Rightarrow> None) = Some [(''x'', VNum 2)]"
    by (auto simp: heap_get_def split: prod.splits sum.splits val.splits)
  from 2 have b: "(case settled 40 (evalAsync example_registries example_host ?nd (VRef 0) None ?s) of
      Some (Fulfilled (VRef r), s) \<Rightarrow> heap_get (heap s) r
    | _ \<Rightarrow> None) = Some [(''x'', VNum 1)]"
    by (auto simp: heap_get_def split: option.splits prod.splits pstate.splits val.splits)
  show ?thesis
    using a b by simp
qed

section \<open>Synchronous and asynchronous evaluation\<close>

lemma new_instance_isAsync:
  "(new_instance rg hs c a options)\<lparr>isAsync := b\<rparr> = new_instance rg hs c b options"
  by (simp add: new_instance_def)

lemma immediate_exec:
  assumes "immediate (new_instance rg hs c a options) h nd v" and "heap s = h"
  shows "exec (evaluator (new_instance rg hs c b options) nd) s = (Inr v, s)"
  using assms unfolding immediate_def new_instance_isAsync by blast

lemma immediate_plain: "immediate e h nd v \<Longrightarrow> \<not> is_promise v"
  by (simp add: immediate_def)

lemmas async_run = machine_defs run_queue_numeral run_queue_empty eval_def
  exec_eval_with_async exec_bind exec_standard evalSyncAsync_def settled_as_def

lemmas sync_run = evaluate_def eval_def exec_eval_with_sync exec_bind exec_standard
  evalSyncAsync_def start_def annotate_def settled_as_def

lemma agree_immediate:
  assumes "immediate (new_instance rg hs c False options) h nd v"
  shows "fst (evaluate rg hs nd c options (start h)) = Inr v"
    and "map_option fst (settled 40 (evalAsync rg hs nd c options (start h))) = Some (Fulfilled v)"
  using immediate_plain [OF assms]
  by (simp_all add: sync_run async_run immediate_exec [OF assms])

lemma harmless_result: "harmless f h \<Longrightarrow> f h = (fst (f h), h)"
  by (simp add: harmless_def prod_eq_iff)

lemma agree_unary:
  assumes std: "standard rg"
    and a: "immediate (new_instance rg hs c False options) h a va"
    and f: "\<forall>f. unops rg operator = Some f \<longrightarrow> harmless (f va) h"
    and p: "case fst (evaluate rg hs (UnaryExpression operator a) c options (start h)) of
              Inr v \<Rightarrow> \<not> is_promise v | Inl er \<Rightarrow> True"
  shows "map_option fst (settled 40 (evalAsync rg hs (UnaryExpression operator a) c options (start h)))
     = Some (settled_as (fst (evaluate rg hs (UnaryExpression operator a) c options (start h))))"
proof (cases "unops rg operator")
  case None
  then show ?thesis
    using immediate_plain [OF a] std
    by (simp add: sync_run async_run immediate_exec [OF a] evalUnaryExpression_of_def unary_op_def)
next
  case (Some g)
  then have g: "g va h = (fst (g va h), h)"
    using f harmless_result by blast
  show ?thesis
  proof (cases "fst (g va h)")
    case (Inl er)
    with g have "g va h = (Inl er, h)" by simp
    then show ?thesis
      using immediate_plain [OF a] std Some
      by (simp add: sync_run async_run immediate_exec [OF a] evalUnaryExpression_of_def
          unary_op_def)
  next
    case (Inr v)
    with g have gv: "g va h = (Inr v, h)" by simp
    then have "\<not> is_promise v"
      using p std Some
      by (simp add: sync_run immediate_exec [OF a] evalUnaryExpression_of_def unary_op_def)
    then show ?thesis
      using immediate_plain [OF a] std Some gv
      by (simp add: sync_run async_run immediate_exec [OF a] evalUnaryExpression_of_def
          unary_op_def)
  qed
qed

lemma agree_binary:
  assumes std: "standard rg"
    and nd: "nd = BinaryExpression operator a b \<or> nd = LogicalExpression operator a b"
    and a: "immediate (new_instance rg hs c False options) h a va"
    and b: "immediate (new_instance rg hs c False options) h b vb"
    and f: "\<forall>f. binops rg operator = Some f \<longrightarrow> harmless (f va vb) h"
    and p: "case fst (evaluate rg hs nd c options (start h)) of
              Inr v \<Rightarrow> \<not> is_promise v | Inl er \<Rightarrow> True"
  shows "map_option fst (settled 40 (evalAsync rg hs nd c options (start h)))
     = Some (settled_as (fst (evaluate rg hs nd c options (start h))))"
proof -
  note pl = immediate_plain [OF a] immediate_plain [OF b]
  note ex = immediate_exec [OF a] immediate_exec [OF b]
  consider (logical) "operator = ''||'' \<or> operator = ''&&''"
    | (none) "operator \<noteq> ''||''" "operator \<noteq> ''&&''" "binops rg operator = None"
    | (some) g where "operator \<noteq> ''||''" "operator \<noteq> ''&&''" "binops rg operator = Some g"
    by (cases "binops rg operator") auto
  then show ?thesis
  proof cases
    case logical
    then show ?thesis
      using pl std nd
      by (auto simp: sync_run async_run ex evalBinaryExpression_of_def)
  next
    case none
    then show ?thesis
      using pl std nd
      by (auto simp: sync_run async_run ex evalBinaryExpression_of_def binary_op_def
          arr_nth_def arr_items_def)
  next
    case some
    then have g: "g va vb h = (fst (g va vb h), h)"
      using f harmless_result by blast
    show ?thesis
    proof (cases "fst (g va vb h)")
      case (Inl er)
      with g have "g va vb h = (Inl er, h)" by simp
      then show ?thesis
        using pl std nd some
        by (auto simp: sync_run async_run ex evalBinaryExpression_of_def binary_op_def
            arr_nth_def arr_items_def)
    next
      case (Inr v)
      with g have gv: "g va vb h = (Inr v, h)" by simp
      then have "\<not> is_promise v"
        using p std nd some
        by (auto simp: sync_run ex evalBinaryExpression_of_def binary_op_def
            arr_nth_def arr_items_def)
      then show ?thesis
        using pl std nd some gv
        by (auto simp: sync_run async_run ex evalBinaryExpression_of_def binary_op_def
            arr_nth_def arr_items_def)
    qed
  qed
qed

lemma agree_conditional:
  assumes std: "standard rg"
    and t: "immediate (new_instance rg hs c False options) h t vt"
    and a: "immediate (new_instance rg hs c False options) h a va"
    and b: "immediate (new_instance rg hs c False options) h b vb"
  shows "map_option fst
      (settled 40 (evalAsync rg hs (ConditionalExpression t a b) c options (start h)))
     = Some (settled_as (fst (evaluate rg hs (ConditionalExpression t a b) c options (start h))))"
  using immediate_plain [OF t] immediate_plain [OF a] immediate_plain [OF b] std
  by (simp add: sync_run async_run immediate_exec [OF t] immediate_exec [OF a]
      immediate_exec [OF b] evalConditionalExpression_of_def)

lemma member_key_heap_only:
  "\<exists>R H. (\<forall>t. R = Inr t \<longrightarrow> \<not> is_promise t) \<and> (\<forall>s b. heap s = h \<longrightarrow>
     exec (member_key (new_instance rg hs c b options) optional object key) s
       = (R, s\<lparr>heap := H\<rparr>))"
proof (cases "regex_test member_blocklist (to_string hs key)")
  case True
  then have "\<forall>s b. heap s = h \<longrightarrow>
     exec (member_key (new_instance rg hs c b options) optional object key) s
       = (Inl (AccessDenied (to_string hs key)), s\<lparr>heap := h\<rparr>)"
    by (auto simp: member_key_def)
  then show ?thesis by (intro exI [of _ "Inl (AccessDenied (to_string hs key))"] exI [of _ h]) simp
next
  case False
  show ?thesis
  proof (cases "optional \<and> \<not> truthy object")
    case True
    with False have "\<forall>s b. heap s = h \<longrightarrow>
       exec (member_key (new_instance rg hs c b options) optional object key) s
         = (Inr (VArr [object, VUndef, key]), s\<lparr>heap := h @ [[]]\<rparr>)"
      by (auto simp: member_key_def exec_bind new_object_def getValue_fresh_object)
    then show ?thesis
      by (intro exI [of _ "Inr (VArr [object, VUndef, key])"] exI [of _ "h @ [[]]"]) simp
  next
    case nopt: False
    let ?o = "case options of None \<Rightarrow> defaultOptions rg | Some given \<Rightarrow> given"
    show ?thesis
    proof (cases "getValue hs h object (to_string hs key) ?o")
      case (Inl er)
      with False nopt have "\<forall>s b. heap s = h \<longrightarrow>
         exec (member_key (new_instance rg hs c b options) optional object key) s
           = (Inl er, s\<lparr>heap := h\<rparr>)"
        by (auto simp: member_key_def exec_bind)
      then show ?thesis by (intro exI [of _ "Inl er"] exI [of _ h]) simp
    next
      case (Inr v)
      with False nopt have "\<forall>s b. heap s = h \<longrightarrow>
         exec (member_key (new_instance rg hs c b options) optional object key) s
           = (Inr (VArr [object, v, key]), s\<lparr>heap := h\<rparr>)"
        by (auto simp: member_key_def exec_bind)
      then show ?thesis by (intro exI [of _ "Inr (VArr [object, v, key])"] exI [of _ h]) simp
    qed
  qed
qed

lemma agree_member:
  assumes std: "standard rg"
    and nd: "nd = MemberExpression a (Identifier k) False optional
      \<or> nd = OptionalMemberExpression a (Identifier k) False optional"
    and a: "immediate (new_instance rg hs c False options) h a va"
    and p: "case fst (evaluate rg hs nd c options (start h)) of
              Inr v \<Rightarrow> \<not> is_promise v | Inl er \<Rightarrow> True"
  shows "map_option fst (settled 40 (evalAsync rg hs nd c options (start h)))
     = Some (settled_as (fst (evaluate rg hs nd c options (start h))))"
proof -
  obtain R H where rp: "\<And>t. R = Inr t \<Longrightarrow> \<not> is_promise t"
    and mk: "\<And>s b. heap s = h \<Longrightarrow>
     exec (member_key (new_instance rg hs c b options) optional va (VStr k)) s
       = (R, s\<lparr>heap := H\<rparr>)"
    using member_key_heap_only [where h = h and rg = rg and hs = hs and c = c
        and options = options and optional = optional and object = va and key = "VStr k"]
    by blast
  note pl = immediate_plain [OF a]
  note ex = immediate_exec [OF a]
  show ?thesis
  proof (cases R)
    case (Inl er)
    then show ?thesis
      using pl std nd mk
      by (auto simp: sync_run async_run ex evalMemberExpression_of_def evaluateMember_simps
          evaluateMember_of_def)
  next
    case (Inr t)
    then have "\<not> is_promise (arr_nth t (Suc 0))"
      using p std nd mk
      by (auto simp: sync_run ex evalMemberExpression_of_def evaluateMember_simps
          evaluateMember_of_def)
    then show ?thesis
      using pl std nd mk Inr rp [OF Inr]
      by (auto simp: sync_run async_run ex evalMemberExpression_of_def evaluateMember_simps
          evaluateMember_of_def)
  qed
qed

lemma immediate_Literal:
  "standard (regs e) \<Longrightarrow> \<not> is_promise v \<Longrightarrow> immediate e h (Literal v) v"
  by (simp add: immediate_def exec_standard)

lemma immediate_ThisExpression:
  "standard (regs e) \<Longrightarrow> \<not> is_promise (ctx e) \<Longrightarrow> immediate e h ThisExpression (ctx e)"
  by (simp add: immediate_def exec_standard)

lemma exec_evalIdentifier:
  "exec (evalIdentifier (e\<lparr>isAsync := b\<rparr>) name) s
     = (fst (exec (evalIdentifier e name) (start (heap s))), s)"
  by (simp add: evalIdentifier_def lookup_value_def start_def split: sum.splits option.splits)

lemma immediate_Identifier:
  assumes "standard (regs e)" and "fst (exec (evalIdentifier e name) (start h)) = Inr v"
    and "\<not> is_promise v"
  shows "immediate e h (Identifier name) v"
  using assms by (simp add: immediate_def exec_standard exec_evalIdentifier)




end
